theory Spec2Isabelle
  imports Main
begin

section \<open>Strings\<close>

text \<open>
  JavaScript strings are modelled as \<open>string\<close> restricted to ASCII. \<open>toLowerCase\<close>
  maps the letters A to Z to a to z and leaves every other character alone;
  \<open>trim\<close> strips the ASCII white space that \<^verbatim>\<open>String.prototype.trim\<close> and
  the pattern \<^verbatim>\<open>\s\<close> recognise.
\<close>

definition lower_char :: "char \<Rightarrow> char" where
  "lower_char c =
     (case map_of (zip ''ABCDEFGHIJKLMNOPQRSTUVWXYZ'' ''abcdefghijklmnopqrstuvwxyz'') c of
        None \<Rightarrow> c
      | Some l \<Rightarrow> l)"

definition toLowerCase :: "string \<Rightarrow> string" where
  "toLowerCase s = map lower_char s"

definition is_space :: "char \<Rightarrow> bool" where
  "is_space c = (c \<in> set [CHR '' '', CHR 0x09, CHR 0x0A, CHR 0x0B, CHR 0x0C, CHR 0x0D])"

definition trim :: "string \<Rightarrow> string" where
  "trim s = rev (dropWhile is_space (rev (dropWhile is_space s)))"

definition startsWith :: "string \<Rightarrow> string \<Rightarrow> bool" where
  "startsWith s pre = (take (length pre) s = pre)"

section \<open>Data model\<close>

text \<open>
  Documents are records holding the schema fields the controllers read or write;
  fields no controller touches (\<^verbatim>\<open>publishedAt\<close>, \<^verbatim>\<open>featured\<close>, \<^verbatim>\<open>meta\<close>,
  the comments, a category's colour and parent, a user's profile) are left out.
  An ObjectId is a natural number; the store hands out fresh ones from a counter.
  Dates are seconds on a clock that every operation receives as \<open>now\<close>.
  The view counter and the post count are natural numbers (a JavaScript number
  counts exactly up to \<open>2 ^ 53\<close>). A field shared by two schemas carries the
  schema's name as a prefix, and \<^verbatim>\<open>_id\<close> is \<open>post_id\<close>, \<open>cat_id\<close>, \<open>user_id\<close>.
\<close>

type_synonym object_id = nat

datatype role = UserRole | AdminRole

datatype status = Draft | Published | Archived

record like =
  like_user :: object_id
  like_createdAt :: nat

record post =
  post_id :: object_id
  title :: string
  content :: string
  post_slug :: string
  category :: object_id
  author :: object_id
  tags :: "string list"
  status :: status
  views :: nat
  likes :: "like list"

record category =
  cat_id :: object_id
  name :: string
  cat_isActive :: bool
  postCount :: nat

record user =
  user_id :: object_id
  username :: string
  email :: string
  password :: string
  role :: role
  isActive :: bool
  lastLogin :: "nat option"

text \<open>
  \<open>req_user\<close> is the account attached to a request by the authentication gate: the
  user document read with \<^verbatim>\<open>select('-password')\<close>.
\<close>

record req_user =
  ru_id :: object_id
  ru_username :: string
  ru_email :: string
  ru_role :: role
  ru_isActive :: bool
  ru_lastLogin :: "nat option"

text \<open>
  The store: one list of documents for each collection, in insertion order. An
  operation on the document with a given \<^verbatim>\<open>_id\<close> acts on every entry with that
  id (a collection holds at most one). Every \<^verbatim>\<open>await\<close> on a write may reject;
  the model has one switch, \<open>accepts_writes\<close>, and a write against a store whose
  switch is off rejects and changes nothing. Reads always answer. A rejection is an
  \<open>error\<close>, and each controller's \<^verbatim>\<open>catch\<close> block is the branch that receives it.
\<close>

record db =
  users :: "user list"
  posts :: "post list"
  categories :: "category list"
  next_id :: object_id
  accepts_writes :: bool

datatype error =
    WriteRejected
  | ValidationError
  | DuplicateKeyError
  | InvalidToken
  | ModuleNotFound

section \<open>Responses\<close>

datatype resp_data =
    NoData
  | PostData post
  | LikesData nat
  | AuthData object_id string string role string

record response =
  status_code :: nat
  success :: bool
  message :: "string option"
  data :: resp_data

definition fail_json :: "nat \<Rightarrow> string \<Rightarrow> response" where
  "fail_json code msg =
     \<lparr>status_code = code, success = False, message = Some msg, data = NoData\<rparr>"

definition ok_json :: "nat \<Rightarrow> string option \<Rightarrow> resp_data \<Rightarrow> response" where
  "ok_json code msg d = \<lparr>status_code = code, success = True, message = msg, data = d\<rparr>"

text \<open>A middleware either answers the request or hands it on with what it resolved.\<close>

datatype 'a outcome = Respond response | Next 'a

section \<open>Post model (models/Post.js)\<close>

definition Post_findById :: "db \<Rightarrow> object_id \<Rightarrow> post option" where
  "Post_findById d i = find (\<lambda>p. post_id p = i) (posts d)"

text \<open>\<^verbatim>\<open>post.save()\<close> on a document read from the store: the stored copy is replaced.\<close>

definition Post_save :: "db \<Rightarrow> post \<Rightarrow> error + db" where
  "Post_save d p =
     (if \<not> accepts_writes d then Inl WriteRejected
      else Inr (d\<lparr>posts := map (\<lambda>q. if post_id q = post_id p then p else q) (posts d)\<rparr>))"

definition likeCount :: "post \<Rightarrow> nat" where
  "likeCount p = length (likes p)"

definition addLike :: "db \<Rightarrow> nat \<Rightarrow> post \<Rightarrow> object_id \<Rightarrow> error + (db \<times> post)" where
  "addLike d now p userId =
     (if \<not> list_ex (\<lambda>l. like_user l = userId) (likes p) then
        (let p' = p\<lparr>likes := likes p @ [\<lparr>like_user = userId, like_createdAt = now\<rparr>]\<rparr>
         in case Post_save d p' of Inl e \<Rightarrow> Inl e | Inr d' \<Rightarrow> Inr (d', p'))
      else Inr (d, p))"

definition removeLike :: "db \<Rightarrow> post \<Rightarrow> object_id \<Rightarrow> error + (db \<times> post)" where
  "removeLike d p userId =
     (let p' = p\<lparr>likes := filter (\<lambda>l. like_user l \<noteq> userId) (likes p)\<rparr>
      in case Post_save d p' of Inl e \<Rightarrow> Inl e | Inr d' \<Rightarrow> Inr (d', p'))"

section \<open>Post controller: likes\<close>

definition likePost :: "db \<Rightarrow> nat \<Rightarrow> req_user \<Rightarrow> object_id \<Rightarrow> db \<times> response" where
  "likePost d now u pid =
     (case Post_findById d pid of
        None \<Rightarrow> (d, fail_json 404 ''Post not found'')
      | Some p \<Rightarrow>
          (case addLike d now p (ru_id u) of
             Inl e \<Rightarrow> (d, fail_json 500 ''Server error liking post'')
           | Inr (d', p') \<Rightarrow>
               (d', ok_json 200 (Some ''Post liked successfully'') (LikesData (likeCount p')))))"

definition unlikePost :: "db \<Rightarrow> req_user \<Rightarrow> object_id \<Rightarrow> db \<times> response" where
  "unlikePost d u pid =
     (case Post_findById d pid of
        None \<Rightarrow> (d, fail_json 404 ''Post not found'')
      | Some p \<Rightarrow>
          (case removeLike d p (ru_id u) of
             Inl e \<Rightarrow> (d, fail_json 500 ''Server error unliking post'')
           | Inr (d', p') \<Rightarrow>
               (d', ok_json 200 (Some ''Post unliked successfully'') (LikesData (likeCount p')))))"

section \<open>Category model (models/Category.js)\<close>

definition Category_findById :: "db \<Rightarrow> object_id \<Rightarrow> category option" where
  "Category_findById d i = find (\<lambda>c. cat_id c = i) (categories d)"

definition Category_save :: "db \<Rightarrow> category \<Rightarrow> error + db" where
  "Category_save d c =
     (if \<not> accepts_writes d then Inl WriteRejected
      else Inr (d\<lparr>categories := map (\<lambda>q. if cat_id q = cat_id c then c else q) (categories d)\<rparr>))"

text \<open>\<^verbatim>\<open>Post.countDocuments({ category, status })\<close>.\<close>

definition Post_countDocuments :: "db \<Rightarrow> object_id \<Rightarrow> status \<Rightarrow> nat" where
  "Post_countDocuments d cid st =
     length (filter (\<lambda>p. category p = cid \<and> status p = st) (posts d))"

definition updatePostCount :: "db \<Rightarrow> category \<Rightarrow> error + (db \<times> category)" where
  "updatePostCount d c =
     (let c' = c\<lparr>postCount := Post_countDocuments d (cat_id c) Published\<rparr>
      in case Category_save d c' of Inl e \<Rightarrow> Inl e | Inr d' \<Rightarrow> Inr (d', c'))"

section \<open>Post schema: setters, validators, slug\<close>

definition is_alnum :: "char \<Rightarrow> bool" where
  "is_alnum c =
     (c \<in> set ''abcdefghijklmnopqrstuvwxyzABCDEFGHIJKLMNOPQRSTUVWXYZ0123456789'')"

text \<open>Every maximal run of characters satisfying \<open>P\<close> becomes the single character \<open>r\<close>.\<close>

fun replace_runs :: "(char \<Rightarrow> bool) \<Rightarrow> char \<Rightarrow> string \<Rightarrow> string" where
  "replace_runs P r [] = []"
| "replace_runs P r [c] = (if P c then [r] else [c])"
| "replace_runs P r (c # c' # cs) =
     (if P c then (if P c' then replace_runs P r (c' # cs) else r # replace_runs P r (c' # cs))
      else c # replace_runs P r (c' # cs))"

text \<open>The pre-save hook's slug: lower case, drop what is neither letter, digit nor white
  space, white space runs to a hyphen, hyphen runs to one hyphen, trim.\<close>

definition slugify :: "string \<Rightarrow> string" where
  "slugify t =
     trim (replace_runs (\<lambda>c. c = CHR ''-'') (CHR ''-'')
       (replace_runs is_space (CHR ''-'')
         (filter (\<lambda>c. is_alnum c \<or> is_space c) (toLowerCase t))))"

definition title_ok :: "string \<Rightarrow> bool" where
  "title_ok t = (3 \<le> length t \<and> length t \<le> 100)"

definition content_ok :: "string \<Rightarrow> bool" where
  "content_ok c = (10 \<le> length c)"

definition tag_set :: "string \<Rightarrow> string" where
  "tag_set t = toLowerCase (trim t)"

text \<open>The request body of the post routes; a field the client left out is \<open>None\<close>.\<close>

record post_body =
  b_title :: "string option"
  b_content :: "string option"
  b_category :: "object_id option"
  b_tags :: "string list option"
  b_status :: "status option"

text \<open>
  \<^verbatim>\<open>Post.create\<close>: the setters run (title trimmed, tags trimmed and lower-cased), the
  validators run (title and content required and within their lengths), the slug is
  derived, and the insert fails on a slug that another post already has (the slug
  index is unique).
\<close>

definition Post_create ::
  "db \<Rightarrow> string option \<Rightarrow> string option \<Rightarrow> object_id \<Rightarrow> object_id \<Rightarrow> string list \<Rightarrow> status
     \<Rightarrow> error + (db \<times> post)" where
  "Post_create d ttl cnt cat auth tgs st =
     (case (ttl, cnt) of
        (Some t, Some c) \<Rightarrow>
          (let t' = trim t in
           if \<not> (title_ok t' \<and> content_ok c) then Inl ValidationError
           else if \<not> accepts_writes d then Inl WriteRejected
           else if list_ex (\<lambda>q. post_slug q = slugify t') (posts d) then Inl DuplicateKeyError
           else
             (let p = \<lparr>post_id = next_id d, title = t', content = c, post_slug = slugify t',
                        category = cat, author = auth, tags = map tag_set tgs, status = st,
                        views = 0, likes = []\<rparr>
              in Inr (d\<lparr>posts := posts d @ [p], next_id := Suc (next_id d)\<rparr>, p)))
      | _ \<Rightarrow> Inl ValidationError)"

text \<open>
  \<^verbatim>\<open>Post.findByIdAndUpdate(id, {title, content, category, tags, status},
  {new: true, runValidators: true})\<close>: a field that is undefined is left as it is, the
  setters and the validators run on the fields that are set, the pre-save hook does not
  run (the slug stays), and the updated document is returned, or nothing when no
  document has the id.
\<close>

definition apply_update :: "post_body \<Rightarrow> post \<Rightarrow> post" where
  "apply_update b p =
     p\<lparr>title := (case b_title b of None \<Rightarrow> title p | Some t \<Rightarrow> trim t),
       content := (case b_content b of None \<Rightarrow> content p | Some c \<Rightarrow> c),
       category := (case b_category b of None \<Rightarrow> category p | Some c \<Rightarrow> c),
       tags := (case b_tags b of None \<Rightarrow> tags p | Some ts \<Rightarrow> map tag_set ts),
       status := (case b_status b of None \<Rightarrow> status p | Some s \<Rightarrow> s)\<rparr>"

definition update_valid :: "post_body \<Rightarrow> bool" where
  "update_valid b =
     ((case b_title b of None \<Rightarrow> True | Some t \<Rightarrow> title_ok (trim t))
      \<and> (case b_content b of None \<Rightarrow> True | Some c \<Rightarrow> content_ok c))"

definition Post_findByIdAndUpdate ::
  "db \<Rightarrow> object_id \<Rightarrow> post_body \<Rightarrow> error + (db \<times> post option)" where
  "Post_findByIdAndUpdate d i b =
     (if \<not> update_valid b then Inl ValidationError
      else if \<not> accepts_writes d then Inl WriteRejected
      else Inr (d\<lparr>posts := map (\<lambda>q. if post_id q = i then apply_update b q else q) (posts d)\<rparr>,
                map_option (apply_update b) (Post_findById d i)))"

definition Post_findByIdAndDelete :: "db \<Rightarrow> object_id \<Rightarrow> error + db" where
  "Post_findByIdAndDelete d i =
     (if \<not> accepts_writes d then Inl WriteRejected
      else Inr (d\<lparr>posts := filter (\<lambda>q. post_id q \<noteq> i) (posts d)\<rparr>))"

section \<open>Post controller\<close>

definition getPost :: "db \<Rightarrow> object_id \<Rightarrow> db \<times> response" where
  "getPost d pid =
     (case Post_findById d pid of
        None \<Rightarrow> (d, fail_json 404 ''Post not found'')
      | Some post \<Rightarrow>
          (let post' = post\<lparr>views := views post + 1\<rparr>
           in case Post_save d post' of
                Inl e \<Rightarrow> (d, fail_json 500 ''Server error retrieving post'')
              | Inr d' \<Rightarrow> (d', ok_json 200 None (PostData post'))))"

definition createPost :: "db \<Rightarrow> req_user \<Rightarrow> post_body \<Rightarrow> db \<times> response" where
  "createPost d u b =
     (case b_category b of
        None \<Rightarrow> (d, fail_json 400 ''Invalid category'')
      | Some cid \<Rightarrow>
          (case Category_findById d cid of
             None \<Rightarrow> (d, fail_json 400 ''Invalid category'')
           | Some categoryExists \<Rightarrow>
               (case Post_create d (b_title b) (b_content b) cid (ru_id u)
                       (case b_tags b of None \<Rightarrow> [] | Some ts \<Rightarrow> ts)
                       (case b_status b of None \<Rightarrow> Published | Some s \<Rightarrow> s) of
                  Inl e \<Rightarrow> (d, fail_json 500 ''Server error creating post'')
                | Inr (d1, post) \<Rightarrow>
                    (case updatePostCount d1 categoryExists of
                       Inl e \<Rightarrow> (d1, fail_json 500 ''Server error creating post'')
                     | Inr (d2, c) \<Rightarrow>
                         (d2, ok_json 201 (Some ''Post created successfully'')
                                (PostData post))))))"

definition updatePost :: "db \<Rightarrow> req_user \<Rightarrow> object_id \<Rightarrow> post_body \<Rightarrow> db \<times> response" where
  "updatePost d u pid b =
     (case Post_findById d pid of
        None \<Rightarrow> (d, fail_json 404 ''Post not found'')
      | Some post \<Rightarrow>
          if author post \<noteq> ru_id u \<and> ru_role u \<noteq> AdminRole
          then (d, fail_json 403 ''Not authorized to update this post'')
          else if (case b_category b of None \<Rightarrow> False | Some c \<Rightarrow> Category_findById d c = None)
          then (d, fail_json 400 ''Invalid category'')
          else
            (case Post_findByIdAndUpdate d pid b of
               Inr (d', Some updatedPost) \<Rightarrow>
                 (d', ok_json 200 (Some ''Post updated successfully'') (PostData updatedPost))
             | Inr (d', None) \<Rightarrow> (d', fail_json 500 ''Server error updating post'')
             | Inl e \<Rightarrow> (d, fail_json 500 ''Server error updating post'')))"

definition deletePost :: "db \<Rightarrow> req_user \<Rightarrow> object_id \<Rightarrow> db \<times> response" where
  "deletePost d u pid =
     (case Post_findById d pid of
        None \<Rightarrow> (d, fail_json 404 ''Post not found'')
      | Some post \<Rightarrow>
          if author post \<noteq> ru_id u \<and> ru_role u \<noteq> AdminRole
          then (d, fail_json 403 ''Not authorized to delete this post'')
          else
            (case Post_findByIdAndDelete d pid of
               Inl e \<Rightarrow> (d, fail_json 500 ''Server error deleting post'')
             | Inr d1 \<Rightarrow>
                 (case Category_findById d1 (category post) of
                    None \<Rightarrow> (d1, ok_json 200 (Some ''Post deleted successfully'') NoData)
                  | Some c \<Rightarrow>
                      (case updatePostCount d1 c of
                         Inl e \<Rightarrow> (d1, fail_json 500 ''Server error deleting post'')
                       | Inr (d2, c') \<Rightarrow>
                           (d2, ok_json 200 (Some ''Post deleted successfully'') NoData)))))"

text \<open>\<open>n\<close> retrievals of the same post, one after the other; the answers in order.\<close>

fun getPost_times :: "nat \<Rightarrow> db \<Rightarrow> object_id \<Rightarrow> db \<times> response list" where
  "getPost_times 0 d pid = (d, [])"
| "getPost_times (Suc n) d pid =
     (case getPost d pid of
        (d1, r) \<Rightarrow> (case getPost_times n d1 pid of (d2, rs) \<Rightarrow> (d2, r # rs)))"

section \<open>User schema (models/User.js)\<close>

text \<open>
  The schema's email pattern is kept as a regular expression and matched by
  derivatives; the pattern is anchored at both ends, so a string matches when the
  whole of it is in the language.
\<close>

datatype rx = Zero | One | Cls string | Alt rx rx | Seq rx rx | Star rx

fun nullable :: "rx \<Rightarrow> bool" where
  "nullable Zero = False"
| "nullable One = True"
| "nullable (Cls cs) = False"
| "nullable (Alt r s) = (nullable r \<or> nullable s)"
| "nullable (Seq r s) = (nullable r \<and> nullable s)"
| "nullable (Star r) = True"

fun deriv :: "char \<Rightarrow> rx \<Rightarrow> rx" where
  "deriv c Zero = Zero"
| "deriv c One = Zero"
| "deriv c (Cls cs) = (if c \<in> set cs then One else Zero)"
| "deriv c (Alt r s) = Alt (deriv c r) (deriv c s)"
| "deriv c (Seq r s) =
     (if nullable r then Alt (Seq (deriv c r) s) (deriv c s) else Seq (deriv c r) s)"
| "deriv c (Star r) = Seq (deriv c r) (Star r)"

definition rx_match :: "rx \<Rightarrow> string \<Rightarrow> bool" where
  "rx_match r s = nullable (foldl (\<lambda>r c. deriv c r) r s)"

definition rx_word :: rx where
  "rx_word = Cls ''abcdefghijklmnopqrstuvwxyzABCDEFGHIJKLMNOPQRSTUVWXYZ0123456789_''"

definition rx_plus :: "rx \<Rightarrow> rx" where
  "rx_plus r = Seq r (Star r)"

definition rx_opt :: "rx \<Rightarrow> rx" where
  "rx_opt r = Alt One r"

text \<open>\<^verbatim>\<open>/^\w+([.-]?\w+)*@\w+([.-]?\w+)*(\.\w{2,3})+$/\<close>\<close>

definition email_rx :: rx where
  "email_rx =
     (let words = Seq (rx_plus rx_word) (Star (Seq (rx_opt (Cls ''.-'')) (rx_plus rx_word)));
          tld = Seq (Cls ''.'') (Seq rx_word (Seq rx_word (rx_opt rx_word)))
      in Seq words (Seq (Cls ''@'') (Seq words (rx_plus tld))))"

section \<open>Process environment and libraries\<close>

text \<open>
  Modelled from the spec: the token library (jsonwebtoken) and the password library
  (bcryptjs) are not part of the repository. A signed token is modelled symbolically,
  as the key it was signed with and the claims it carries: the signature of a token
  matches a secret exactly when the token was signed with that secret. How a signed
  token is written as a string belongs to the library, so the encoder and the decoder
  are fields of the run-time environment, next to the two environment variables the
  code reads and to the library's hash and compare. A string that is no token decodes
  to \<open>None\<close>. The lifetime is in seconds; the code's default \<^verbatim>\<open>'7d'\<close> is 604800.
\<close>

record jwt_payload =
  userId :: object_id
  iat :: nat
  exp :: "nat option"

record jws =
  signed_with :: string
  payload :: jwt_payload

datatype jwt_error = JsonWebTokenError | TokenExpiredError

record runtime =
  env_JWT_SECRET :: "string option"
  env_JWT_EXPIRE :: "nat option"
  jwt_encode :: "jws \<Rightarrow> string"
  jwt_decode :: "string \<Rightarrow> jws option"
  bcrypt_hash :: "string \<Rightarrow> string"
  bcrypt_compare :: "string \<Rightarrow> string \<Rightarrow> error + bool"

text \<open>Modelled from the spec: \<^verbatim>\<open>jwt.sign({ userId }, secret, { expiresIn })\<close> of the
  token library, which stamps the issue time and the expiry (issue time plus lifetime)
  and signs with the secret.\<close>

definition jwt_sign :: "runtime \<Rightarrow> nat \<Rightarrow> object_id \<Rightarrow> string \<Rightarrow> nat option \<Rightarrow> string" where
  "jwt_sign rt now uid secret expiresIn =
     jwt_encode rt \<lparr>signed_with = secret,
        payload = \<lparr>userId = uid, iat = now, exp = map_option (\<lambda>t. now + t) expiresIn\<rparr>\<rparr>"

text \<open>Modelled from the spec: \<^verbatim>\<open>jwt.verify(token, secret)\<close> of the token library. It
  throws on a string that is no token, on a signature that does not match the secret
  and on an expiry that has been reached; otherwise it returns the claims. A token
  signed without a lifetime, as the repository's tests sign theirs, carries no expiry
  and does not expire.\<close>

definition jwt_verify :: "runtime \<Rightarrow> nat \<Rightarrow> string \<Rightarrow> string \<Rightarrow> jwt_error + jwt_payload" where
  "jwt_verify rt now token secret =
     (case jwt_decode rt token of
        None \<Rightarrow> Inl JsonWebTokenError
      | Some j \<Rightarrow>
          if signed_with j \<noteq> secret then Inl JsonWebTokenError
          else (case exp (payload j) of
                  None \<Rightarrow> Inr (payload j)
                | Some e \<Rightarrow> if e \<le> now then Inl TokenExpiredError else Inr (payload j)))"

section \<open>User model\<close>

definition User_findById :: "db \<Rightarrow> object_id \<Rightarrow> user option" where
  "User_findById d i = find (\<lambda>u. user_id u = i) (users d)"

definition User_save :: "db \<Rightarrow> user \<Rightarrow> error + db" where
  "User_save d u =
     (if \<not> accepts_writes d then Inl WriteRejected
      else Inr (d\<lparr>users := map (\<lambda>q. if user_id q = user_id u then u else q) (users d)\<rparr>))"

text \<open>
  \<^verbatim>\<open>findOne({ $or: [{ email: identifier.toLowerCase() }, { username: identifier }] })\<close>.
  A filter value passes through the setters of its path before the query runs: the
  email value, which the code has lower-cased, is lower-cased and trimmed, and the
  username value is trimmed. The first account in the collection that matches either
  way is the one returned.
\<close>

definition findByEmailOrUsername :: "db \<Rightarrow> string \<Rightarrow> user option" where
  "findByEmailOrUsername d identifier =
     find (\<lambda>u. email u = trim (toLowerCase (toLowerCase identifier))
               \<or> username u = trim identifier) (users d)"

definition comparePassword :: "runtime \<Rightarrow> user \<Rightarrow> string \<Rightarrow> error + bool" where
  "comparePassword rt this candidatePassword =
     bcrypt_compare rt candidatePassword (password this)"

definition select_no_password :: "user \<Rightarrow> req_user" where
  "select_no_password u =
     \<lparr>ru_id = user_id u, ru_username = username u, ru_email = email u, ru_role = role u,
      ru_isActive = isActive u, ru_lastLogin = lastLogin u\<rparr>"

text \<open>
  \<^verbatim>\<open>User.create({ username, email, password })\<close>: the setters trim the username and
  lower-case and trim the email, the validators check the lengths and the email
  pattern, the pre-save hook hashes the password, and the insert fails when the
  username or the email is taken (both indexes are unique). A new account has role
  \<^verbatim>\<open>user\<close> and is active.
\<close>

definition User_create :: "runtime \<Rightarrow> db \<Rightarrow> string \<Rightarrow> string \<Rightarrow> string \<Rightarrow> error + (db \<times> user)" where
  "User_create rt d un em pw =
     (let un' = trim un; em' = trim (toLowerCase em) in
      if \<not> (3 \<le> length un' \<and> length un' \<le> 30 \<and> rx_match email_rx em' \<and> 8 \<le> length pw)
      then Inl ValidationError
      else if \<not> accepts_writes d then Inl WriteRejected
      else if list_ex (\<lambda>u. username u = un' \<or> email u = em') (users d) then Inl DuplicateKeyError
      else
        (let u = \<lparr>user_id = next_id d, username = un', email = em',
                   password = bcrypt_hash rt pw, role = UserRole, isActive = True,
                   lastLogin = None\<rparr>
         in Inr (d\<lparr>users := users d @ [u], next_id := Suc (next_id d)\<rparr>, u)))"

section \<open>Auth utilities (utils/auth.js)\<close>

definition JWT_SECRET :: "runtime \<Rightarrow> string" where
  "JWT_SECRET rt =
     (case env_JWT_SECRET rt of
        None \<Rightarrow> ''your-secret-key-change-in-production''
      | Some s \<Rightarrow> if s = [] then ''your-secret-key-change-in-production'' else s)"

definition JWT_EXPIRE :: "runtime \<Rightarrow> nat" where
  "JWT_EXPIRE rt = (case env_JWT_EXPIRE rt of None \<Rightarrow> 604800 | Some t \<Rightarrow> t)"

definition generateToken :: "runtime \<Rightarrow> nat \<Rightarrow> object_id \<Rightarrow> string" where
  "generateToken rt now uid = jwt_sign rt now uid (JWT_SECRET rt) (Some (JWT_EXPIRE rt))"

definition verifyToken :: "runtime \<Rightarrow> nat \<Rightarrow> string \<Rightarrow> error + jwt_payload" where
  "verifyToken rt now token =
     (case jwt_verify rt now token (JWT_SECRET rt) of
        Inl e \<Rightarrow> Inl InvalidToken
      | Inr decoded \<Rightarrow> Inr decoded)"

text \<open>\<^verbatim>\<open>authHeader.split(' ')[1]\<close> for a header that starts with \<^verbatim>\<open>'Bearer '\<close>.\<close>

definition bearer_token :: "string \<Rightarrow> string" where
  "bearer_token authHeader = takeWhile (\<lambda>c. c \<noteq> CHR '' '') (drop 7 authHeader)"

definition authenticate ::
  "runtime \<Rightarrow> db \<Rightarrow> nat \<Rightarrow> string option \<Rightarrow> db \<times> req_user outcome" where
  "authenticate rt d now authorization =
     (case authorization of
        None \<Rightarrow> (d, Respond (fail_json 401 ''Access denied. No token provided.''))
      | Some authHeader \<Rightarrow>
          if \<not> startsWith authHeader ''Bearer ''
          then (d, Respond (fail_json 401 ''Access denied. No token provided.''))
          else
            (case verifyToken rt now (bearer_token authHeader) of
               Inl e \<Rightarrow> (d, Respond (fail_json 401 ''Token is not valid.''))
             | Inr decoded \<Rightarrow>
                 (case User_findById d (userId decoded) of
                    None \<Rightarrow> (d, Respond (fail_json 401 ''Token is not valid. User not found.''))
                  | Some user \<Rightarrow>
                      if \<not> isActive user
                      then (d, Respond (fail_json 401 ''Account is deactivated.''))
                      else
                        (let user' = user\<lparr>lastLogin := Some now\<rparr>
                         in case User_save d user' of
                              Inl e \<Rightarrow> (d, Respond (fail_json 401 ''Token is not valid.''))
                            | Inr d' \<Rightarrow> (d', Next (select_no_password user'))))))"

definition authorize :: "role list \<Rightarrow> req_user option \<Rightarrow> unit outcome" where
  "authorize roles req_user =
     (case req_user of
        None \<Rightarrow> Respond (fail_json 401 ''Authentication required.'')
      | Some u \<Rightarrow>
          if ru_role u \<notin> set roles
          then Respond (fail_json 403 ''Access denied. Insufficient permissions.'')
          else Next ())"

text \<open>
  \<open>checkOwnership\<close> loads the model by name and reads the resource by id. Of the
  three models only a post has an \<^verbatim>\<open>author\<close> field.
\<close>

datatype resource = PostDoc post | CategoryDoc category | UserDoc user

definition Model_findById :: "string \<Rightarrow> db \<Rightarrow> object_id \<Rightarrow> error + resource option" where
  "Model_findById modelName d i =
     (if modelName = ''Post'' then Inr (map_option PostDoc (Post_findById d i))
      else if modelName = ''Category'' then Inr (map_option CategoryDoc (Category_findById d i))
      else if modelName = ''User'' then Inr (map_option UserDoc (User_findById d i))
      else Inl ModuleNotFound)"

fun resource_author :: "resource \<Rightarrow> object_id option" where
  "resource_author (PostDoc p) = Some (author p)"
| "resource_author (CategoryDoc c) = None"
| "resource_author (UserDoc u) = None"

definition checkOwnership :: "string \<Rightarrow> db \<Rightarrow> req_user \<Rightarrow> object_id \<Rightarrow> resource outcome" where
  "checkOwnership modelName d u rid =
     (case Model_findById modelName d rid of
        Inl e \<Rightarrow> Respond (fail_json 500 ''Server error during ownership check.'')
      | Inr None \<Rightarrow> Respond (fail_json 404 (modelName @ '' not found.''))
      | Inr (Some resource) \<Rightarrow>
          (case resource_author resource of
             None \<Rightarrow> Next resource
           | Some a \<Rightarrow>
               if a \<noteq> ru_id u \<and> ru_role u \<noteq> AdminRole
               then Respond (fail_json 403 ''Access denied. You can only modify your own resources.'')
               else Next resource))"

section \<open>Auth controller (controllers/authController.js)\<close>

record register_body =
  rb_username :: string
  rb_email :: string
  rb_password :: string

record login_body =
  lb_email :: string
  lb_password :: string

text \<open>
  The body of a registration has passed \<^verbatim>\<open>validateUserRegistration\<close>: the username is
  trimmed and the email is a normalised address without surrounding white space, so the
  setters of the two paths leave the filter values of \<open>register\<close>'s query as they
  are, and the query is written with the values as the controller passes them.
\<close>

definition register :: "runtime \<Rightarrow> db \<Rightarrow> nat \<Rightarrow> register_body \<Rightarrow> db \<times> response" where
  "register rt d now b =
     (case find (\<lambda>u. email u = toLowerCase (rb_email b) \<or> username u = rb_username b) (users d) of
        Some existingUser \<Rightarrow>
          (d, fail_json 400
                (if email existingUser = toLowerCase (rb_email b) then ''Email already exists''
                 else ''Username already exists''))
      | None \<Rightarrow>
          (case User_create rt d (rb_username b) (rb_email b) (rb_password b) of
             Inl e \<Rightarrow> (d, fail_json 500 ''Server error during registration'')
           | Inr (d', user) \<Rightarrow>
               (d', ok_json 201 (Some ''User registered successfully'')
                      (AuthData (user_id user) (username user) (email user) (role user)
                         (generateToken rt now (user_id user))))))"

definition login :: "runtime \<Rightarrow> db \<Rightarrow> nat \<Rightarrow> login_body \<Rightarrow> db \<times> response" where
  "login rt d now b =
     (case findByEmailOrUsername d (lb_email b) of
        None \<Rightarrow> (d, fail_json 401 ''Invalid credentials'')
      | Some user \<Rightarrow>
          (case comparePassword rt user (lb_password b) of
             Inl e \<Rightarrow> (d, fail_json 500 ''Server error during login'')
           | Inr False \<Rightarrow> (d, fail_json 401 ''Invalid credentials'')
           | Inr True \<Rightarrow>
               if \<not> isActive user then (d, fail_json 401 ''Account is deactivated'')
               else
                 (let token = generateToken rt now (user_id user)
                  in case User_save d (user\<lparr>lastLogin := Some now\<rparr>) of
                       Inl e \<Rightarrow> (d, fail_json 500 ''Server error during login'')
                     | Inr d' \<Rightarrow>
                         (d', ok_json 200 (Some ''Login successful'')
                                (AuthData (user_id user) (username user) (email user)
                                   (role user) token)))))"

section \<open>Example data\<close>

definition alice :: req_user where
  "alice = \<lparr>ru_id = 1, ru_username = ''alice'', ru_email = ''alice@example.com'',
     ru_role = UserRole, ru_isActive = True, ru_lastLogin = None\<rparr>"

definition bob :: req_user where
  "bob = \<lparr>ru_id = 2, ru_username = ''bob'', ru_email = ''bob@example.com'',
     ru_role = UserRole, ru_isActive = True, ru_lastLogin = None\<rparr>"

definition carol :: req_user where
  "carol = \<lparr>ru_id = 3, ru_username = ''carol'', ru_email = ''carol@example.com'',
     ru_role = UserRole, ru_isActive = True, ru_lastLogin = None\<rparr>"

definition root_admin :: req_user where
  "root_admin = \<lparr>ru_id = 4, ru_username = ''root'', ru_email = ''root@example.com'',
     ru_role = AdminRole, ru_isActive = True, ru_lastLogin = None\<rparr>"

definition tech :: category where
  "tech = \<lparr>cat_id = 5, name = ''Technology'', cat_isActive = True, postCount = 1\<rparr>"

definition hello :: post where
  "hello = \<lparr>post_id = 10, title = ''Hello world'', content = ''Some first content'',
     post_slug = ''hello-world'', category = 5, author = 1, tags = [], status = Published,
     views = 0, likes = [\<lparr>like_user = 2, like_createdAt = 50\<rparr>]\<rparr>"

definition blog :: db where
  "blog = \<lparr>users = [], posts = [hello], categories = [tech], next_id = 11,
     accepts_writes = True\<rparr>"

definition to_draft :: post_body where
  "to_draft = \<lparr>b_title = None, b_content = None, b_category = None, b_tags = None,
     b_status = Some Draft\<rparr>"

definition to_nowhere :: post_body where
  "to_nowhere = \<lparr>b_title = None, b_content = None, b_category = Some 99, b_tags = None,
     b_status = None\<rparr>"

definition blog_down :: db where
  "blog_down = blog\<lparr>accepts_writes := False\<rparr>"

text \<open>
  A run-time environment with no variables set, a token table of one entry (the token
  the server issued to account 1 at time 1000) and a toy password hash.
\<close>

definition alice_jws :: jws where
  "alice_jws = \<lparr>signed_with = ''your-secret-key-change-in-production'',
     payload = \<lparr>userId = 1, iat = 1000, exp = Some 605800\<rparr>\<rparr>"

definition demo_rt :: runtime where
  "demo_rt = \<lparr>env_JWT_SECRET = None, env_JWT_EXPIRE = None,
     jwt_encode = (\<lambda>j. if j = alice_jws then ''tok-alice'' else ''tok-other''),
     jwt_decode = (\<lambda>s. if s = ''tok-alice'' then Some alice_jws else None),
     bcrypt_hash = (\<lambda>pw. ''#'' @ pw),
     bcrypt_compare = (\<lambda>pw h. Inr (h = ''#'' @ pw))\<rparr>"

definition alice_doc :: user where
  "alice_doc = \<lparr>user_id = 1, username = ''alice'', email = ''alice@example.com'',
     password = ''#Passw0rd'', role = UserRole, isActive = True, lastLogin = None\<rparr>"

definition bob_doc :: user where
  "bob_doc = \<lparr>user_id = 2, username = ''bob'', email = ''bob@example.com'',
     password = ''#Passw0rd'', role = UserRole, isActive = True, lastLogin = None\<rparr>"

definition members :: db where
  "members = blog\<lparr>users := [alice_doc, bob_doc]\<rparr>"

definition members_down :: db where
  "members_down = members\<lparr>accepts_writes := False\<rparr>"

definition alice_again :: register_body where
  "alice_again = \<lparr>rb_username = ''alice2'', rb_email = ''Alice@Example.COM'',
     rb_password = ''Passw0rd''\<rparr>"

definition bob_again :: register_body where
  "bob_again = \<lparr>rb_username = ''bob'', rb_email = ''robert@example.com'',
     rb_password = ''Passw0rd''\<rparr>"

section \<open>Lemmas on the store\<close>

lemma find_map_replace:
  "find P xs = Some x \<Longrightarrow> P y \<Longrightarrow> find P (map (\<lambda>q. if P q then y else q) xs) = Some y"
  by (induction xs) (auto split: if_splits)

lemma Post_findById_id: "Post_findById d i = Some p \<Longrightarrow> post_id p = i"
  by (auto simp: Post_findById_def find_Some_iff)

lemma Post_save_findById:
  "Post_findById d i = Some p \<Longrightarrow> post_id p' = i \<Longrightarrow> Post_save d p' = Inr d' \<Longrightarrow>
   Post_findById d' i = Some p'"
  unfolding Post_findById_def Post_save_def
  by (auto split: if_splits simp: find_map_replace[where P="\<lambda>q. post_id q = post_id p'"])

section \<open>Likes\<close>

lemma addLike_present:
  "u \<in> like_user ` set (likes p) \<Longrightarrow> addLike d t p u = Inr (d, p)"
  by (auto simp: addLike_def list_ex_iff)

lemma addLike_twice:
  "(case addLike d t1 p u of Inl e \<Rightarrow> Inl e | Inr (d1, p1) \<Rightarrow> addLike d1 t2 p1 u)
   = addLike d t1 p u"
  by (auto simp: addLike_def Let_def list_ex_iff split: sum.splits)

lemma removeLike_absent:
  assumes "u \<notin> like_user ` set (likes p)"
  shows "removeLike d p u = (case Post_save d p of Inl e \<Rightarrow> Inl e | Inr d' \<Rightarrow> Inr (d', p))"
proof -
  from assms have "filter (\<lambda>l. like_user l \<noteq> u) (likes p) = likes p"
    by (auto simp: filter_id_conv)
  then show ?thesis by (simp add: removeLike_def)
qed

lemma addLike_result:
  "addLike d t p u = Inr (d1, p1) \<Longrightarrow> Post_findById d i = Some p \<Longrightarrow>
   Post_findById d1 i = Some p1 \<and> u \<in> like_user ` set (likes p1)"
  by (auto simp: addLike_def Let_def list_ex_iff Post_findById_id
      split: if_splits sum.splits dest!: Post_save_findById[where i=i and p=p, rotated 2])

lemma likePost_twice:
  assumes "likePost d t1 a pid = (d1, r1)" "status_code r1 = 200"
  shows "likePost d1 t2 a pid = (d1, r1)"
proof -
  from assms obtain p p1 where p: "Post_findById d pid = Some p"
    and al: "addLike d t1 p (ru_id a) = Inr (d1, p1)"
    and r1: "r1 = ok_json 200 (Some ''Post liked successfully'') (LikesData (likeCount p1))"
    by (auto simp: likePost_def fail_json_def split: option.splits sum.splits)
  from addLike_result[OF al p] have "Post_findById d1 pid = Some p1"
    and "ru_id a \<in> like_user ` set (likes p1)" by auto
  then show ?thesis
    by (simp add: likePost_def addLike_present r1)
qed

lemma unlikePost_absent:
  assumes "Post_findById d pid = Some p" "ru_id a \<notin> like_user ` set (likes p)"
  shows "map_option likes (Post_findById (fst (unlikePost d a pid)) pid) = Some (likes p)"
proof (cases "Post_save d p")
  case (Inl e)
  then show ?thesis using assms by (simp add: unlikePost_def removeLike_absent)
next
  case (Inr d')
  with assms have "Post_findById d' pid = Some p"
    by (auto intro: Post_save_findById simp: Post_findById_id)
  then show ?thesis using assms Inr by (simp add: unlikePost_def removeLike_absent)
qed

text \<open>
  C2. The like sub-protocol is idempotent. Calling \<open>addLike\<close> a second time, on the
  store and document the first call returned, gives exactly what the first call gave
  (same store, same document, hence the same like list and \<open>likeCount\<close>); when the
  account is already in the like list \<open>addLike\<close> returns the current state unchanged
  and not an error, whether or not the store accepts writes. \<open>removeLike\<close> for an
  account that is not in the like list saves the document as it is. The same holds
  through the controllers: a second successful \<open>likePost\<close> answers as the first and
  leaves the store alone, and \<open>unlikePost\<close> by an account that has not liked the post
  leaves the stored like list unchanged.
\<close>

theorem like_idempotent:
  "((case addLike d t1 p u of Inl e \<Rightarrow> Inl e | Inr (d1, p1) \<Rightarrow> addLike d1 t2 p1 u)
      = addLike d t1 p u)
   \<and> (u \<in> like_user ` set (likes p) \<longrightarrow> addLike d t1 p u = Inr (d, p))
   \<and> (v \<notin> like_user ` set (likes p) \<longrightarrow>
        removeLike d p v = (case Post_save d p of Inl e \<Rightarrow> Inl e | Inr d' \<Rightarrow> Inr (d', p)))
   \<and> (likePost d t1 a pid = (d', r) \<and> status_code r = 200 \<longrightarrow>
        likePost d' t2 a pid = (d', r))
   \<and> (Post_findById d pid = Some p \<and> ru_id b \<notin> like_user ` set (likes p) \<longrightarrow>
        map_option likes (Post_findById (fst (unlikePost d b pid)) pid) = Some (likes p))"
proof (intro conjI impI)
  show "(case addLike d t1 p u of Inl e \<Rightarrow> Inl e | Inr (d1, p1) \<Rightarrow> addLike d1 t2 p1 u)
      = addLike d t1 p u"
    by (rule addLike_twice)
next
  assume "u \<in> like_user ` set (likes p)"
  then show "addLike d t1 p u = Inr (d, p)" by (rule addLike_present)
next
  assume "v \<notin> like_user ` set (likes p)"
  then show "removeLike d p v = (case Post_save d p of Inl e \<Rightarrow> Inl e | Inr d' \<Rightarrow> Inr (d', p))"
    by (rule removeLike_absent)
next
  assume "likePost d t1 a pid = (d', r) \<and> status_code r = 200"
  then show "likePost d' t2 a pid = (d', r)" using likePost_twice by blast
next
  assume "Post_findById d pid = Some p \<and> ru_id b \<notin> like_user ` set (likes p)"
  then show "map_option likes (Post_findById (fst (unlikePost d b pid)) pid) = Some (likes p)"
    using unlikePost_absent by blast
qed

theorem like_idempotent_witness:
  "2 \<in> like_user ` set (likes hello)
   \<and> addLike blog 60 hello 2 = Inr (blog, hello)
   \<and> 3 \<notin> like_user ` set (likes hello)
   \<and> removeLike blog hello 3 = Inr (blog, hello)
   \<and> likePost blog 60 bob 10
       = (blog, ok_json 200 (Some ''Post liked successfully'') (LikesData 1))
   \<and> likePost blog 70 bob 10
       = (blog, ok_json 200 (Some ''Post liked successfully'') (LikesData 1))
   \<and> Post_findById blog 10 = Some hello
   \<and> ru_id carol \<notin> like_user ` set (likes hello)
   \<and> map_option likes (Post_findById (fst (unlikePost blog carol 10)) 10)
       = Some (likes hello)"
proof -
  have h1: "2 \<in> like_user ` set (likes hello)" by (simp add: hello_def)
  have h2: "3 \<notin> like_user ` set (likes hello)" by (simp add: hello_def)
  have h3: "Post_findById blog 10 = Some hello"
    by (simp add: Post_findById_def blog_def hello_def)
  have h4: "ru_id carol \<notin> like_user ` set (likes hello)" by (simp add: hello_def carol_def)
  have h5: "likePost blog 60 bob 10
       = (blog, ok_json 200 (Some ''Post liked successfully'') (LikesData 1))"
    by (simp add: likePost_def h3 addLike_def likeCount_def hello_def bob_def)
  have h6: "status_code (ok_json 200 (Some ''Post liked successfully'') (LikesData 1)) = 200"
    by (simp add: ok_json_def)
  have sv: "Post_save blog hello = Inr blog"
    by (simp add: Post_save_def blog_def hello_def)
  note th = like_idempotent[where d=blog and p=hello and u=2 and v=3 and a=bob and pid=10
      and d'=blog and r="ok_json 200 (Some ''Post liked successfully'') (LikesData 1)"
      and b=carol and ?t1.0=60 and ?t2.0=70]
  have c2: "addLike blog 60 hello 2 = Inr (blog, hello)"
    by (rule th[THEN conjunct2, THEN conjunct1, rule_format, OF h1])
  have c3: "removeLike blog hello 3 = Inr (blog, hello)"
    using th[THEN conjunct2, THEN conjunct2, THEN conjunct1, rule_format, OF h2]
    by (simp add: sv)
  have c4: "likePost blog 70 bob 10
       = (blog, ok_json 200 (Some ''Post liked successfully'') (LikesData 1))"
    by (rule th[THEN conjunct2, THEN conjunct2, THEN conjunct2, THEN conjunct1, rule_format,
          OF conjI, OF h5 h6])
  have c5: "map_option likes (Post_findById (fst (unlikePost blog carol 10)) 10)
       = Some (likes hello)"
    by (rule th[THEN conjunct2, THEN conjunct2, THEN conjunct2, THEN conjunct2, rule_format,
          OF conjI, OF h3 h4])
  show ?thesis
    by (intro conjI) (fact h1 c2 h2 c3 h5 c4 h3 h4 c5)+
qed

section \<open>Updating and deleting a post\<close>

lemma find_map_update:
  "(\<And>q. k (f q) = k q) \<Longrightarrow>
   find (\<lambda>q. k q = i) (map (\<lambda>q. if k q = i then f q else q) xs)
     = map_option f (find (\<lambda>q. k q = i) xs)"
  by (induction xs) auto

lemma find_filter_neg: "find P (filter (\<lambda>q. \<not> P q) xs) = None"
  by (induction xs) auto

lemma post_id_apply_update: "post_id (apply_update b q) = post_id q"
  by (simp add: apply_update_def)

lemma updatePost_missing:
  "Post_findById d pid = None \<Longrightarrow> updatePost d u pid b = (d, fail_json 404 ''Post not found'')"
  by (simp add: updatePost_def)

lemma deletePost_missing:
  "Post_findById d pid = None \<Longrightarrow> deletePost d u pid = (d, fail_json 404 ''Post not found'')"
  by (simp add: deletePost_def)

lemma updatePost_forbidden:
  "Post_findById d pid = Some p \<Longrightarrow> author p \<noteq> ru_id u \<Longrightarrow> ru_role u \<noteq> AdminRole \<Longrightarrow>
   updatePost d u pid b = (d, fail_json 403 ''Not authorized to update this post'')"
  by (simp add: updatePost_def)

lemma deletePost_forbidden:
  "Post_findById d pid = Some p \<Longrightarrow> author p \<noteq> ru_id u \<Longrightarrow> ru_role u \<noteq> AdminRole \<Longrightarrow>
   deletePost d u pid = (d, fail_json 403 ''Not authorized to delete this post'')"
  by (simp add: deletePost_def)

lemma updatePost_invalid_category:
  "Post_findById d pid = Some p \<Longrightarrow> author p = ru_id u \<or> ru_role u = AdminRole \<Longrightarrow>
   b_category b = Some c \<Longrightarrow> Category_findById d c = None \<Longrightarrow>
   updatePost d u pid b = (d, fail_json 400 ''Invalid category'')"
  by (auto simp: updatePost_def)

lemma Post_findByIdAndUpdate_ok:
  assumes "Post_findById d pid = Some p" "update_valid b" "accepts_writes d"
  shows "\<exists>d'. Post_findByIdAndUpdate d pid b = Inr (d', Some (apply_update b p))
           \<and> Post_findById d' pid = Some (apply_update b p)
           \<and> categories d' = categories d"
  using assms
  by (simp add: Post_findByIdAndUpdate_def Post_findById_def
      find_map_update[where k=post_id and f="apply_update b", OF post_id_apply_update])

lemma updatePost_authorised:
  assumes "Post_findById d pid = Some p" "author p = ru_id u \<or> ru_role u = AdminRole"
    and "\<forall>c. b_category b = Some c \<longrightarrow> Category_findById d c \<noteq> None"
    and "update_valid b" "accepts_writes d"
  shows "\<exists>d'. updatePost d u pid b
             = (d', ok_json 200 (Some ''Post updated successfully'') (PostData (apply_update b p)))
           \<and> Post_findById d' pid = Some (apply_update b p)"
proof -
  from Post_findByIdAndUpdate_ok[OF assms(1,4,5)] obtain d' where
    u: "Post_findByIdAndUpdate d pid b = Inr (d', Some (apply_update b p))"
    and f: "Post_findById d' pid = Some (apply_update b p)" by blast
  have c: "\<not> (case b_category b of None \<Rightarrow> False | Some c \<Rightarrow> Category_findById d c = None)"
    using assms(3) by (cases "b_category b") auto
  have "updatePost d u pid b
     = (d', ok_json 200 (Some ''Post updated successfully'') (PostData (apply_update b p)))"
    using assms(1,2) c u by (auto simp: updatePost_def)
  with f show ?thesis by blast
qed

lemma updatePostCount_ok:
  "accepts_writes d \<Longrightarrow>
   \<exists>d'. updatePostCount d c = Inr (d', c\<lparr>postCount := Post_countDocuments d (cat_id c) Published\<rparr>)
      \<and> posts d' = posts d"
  by (simp add: updatePostCount_def Category_save_def Let_def)

lemma deletePost_authorised:
  assumes "Post_findById d pid = Some p" "author p = ru_id u \<or> ru_role u = AdminRole"
    and "accepts_writes d"
  shows "\<exists>d'. deletePost d u pid = (d', ok_json 200 (Some ''Post deleted successfully'') NoData)
           \<and> Post_findById d' pid = None"
proof -
  define d1 where "d1 = d\<lparr>posts := filter (\<lambda>q. post_id q \<noteq> pid) (posts d)\<rparr>"
  have del: "Post_findByIdAndDelete d pid = Inr d1"
    using assms(3) by (simp add: Post_findByIdAndDelete_def d1_def)
  have gone: "Post_findById d1 pid = None"
    by (simp add: Post_findById_def d1_def find_filter_neg[where P="\<lambda>q. post_id q = pid"])
  have w1: "accepts_writes d1" using assms(3) by (simp add: d1_def)
  show ?thesis
  proof (cases "Category_findById d1 (category p)")
    case None
    then have "deletePost d u pid = (d1, ok_json 200 (Some ''Post deleted successfully'') NoData)"
      using assms(1,2) del by (auto simp: deletePost_def)
    with gone show ?thesis by blast
  next
    case (Some c)
    from updatePostCount_ok[OF w1, of c] obtain d2 c' where
      upc: "updatePostCount d1 c = Inr (d2, c')" and ps: "posts d2 = posts d1" by blast
    have "deletePost d u pid = (d2, ok_json 200 (Some ''Post deleted successfully'') NoData)"
      using assms(1,2) del Some upc by (auto simp: deletePost_def)
    moreover have "Post_findById d2 pid = None"
      using gone ps by (simp add: Post_findById_def)
    ultimately show ?thesis by blast
  qed
qed

text \<open>
  C1 (amended). For every authenticated actor and every update or delete request: a post
  that does not exist gives 404 before any ownership check, whoever asks; a post that
  exists gives 403 to an actor who is neither its author nor an admin, and the store
  is unchanged. For the author or an admin the request is past the ownership check:
  a delete succeeds and removes the post, and an update succeeds and stores the new
  fields when every category it names exists and the fields pass the schema's
  validators, both provided the store accepts the write; an update that names a
  category that does not exist is answered 400 and changes nothing.
\<close>

theorem post_mutation_access:
  "(Post_findById d pid0 = None \<longrightarrow>
      updatePost d u pid0 b = (d, fail_json 404 ''Post not found'')
      \<and> deletePost d u pid0 = (d, fail_json 404 ''Post not found''))
   \<and> (Post_findById d pid = Some p \<and> author p \<noteq> ru_id u0 \<and> ru_role u0 \<noteq> AdminRole \<longrightarrow>
      updatePost d u0 pid b = (d, fail_json 403 ''Not authorized to update this post'')
      \<and> deletePost d u0 pid = (d, fail_json 403 ''Not authorized to delete this post''))
   \<and> (Post_findById d pid = Some p \<and> (author p = ru_id u \<or> ru_role u = AdminRole) \<longrightarrow>
      (b_category b0 = Some c \<and> Category_findById d c = None \<longrightarrow>
         updatePost d u pid b0 = (d, fail_json 400 ''Invalid category''))
      \<and> (accepts_writes d \<longrightarrow>
           (\<exists>d'. deletePost d u pid
                   = (d', ok_json 200 (Some ''Post deleted successfully'') NoData)
                 \<and> Post_findById d' pid = None)
           \<and> ((\<forall>c. b_category b = Some c \<longrightarrow> Category_findById d c \<noteq> None)
                \<and> update_valid b \<longrightarrow>
               (\<exists>d'. updatePost d u pid b
                       = (d', ok_json 200 (Some ''Post updated successfully'')
                                (PostData (apply_update b p)))
                     \<and> Post_findById d' pid = Some (apply_update b p)))))"
proof (intro conjI impI)
  assume "Post_findById d pid0 = None"
  then show "updatePost d u pid0 b = (d, fail_json 404 ''Post not found'')"
    and "deletePost d u pid0 = (d, fail_json 404 ''Post not found'')"
    by (rule updatePost_missing, rule deletePost_missing)
next
  assume "Post_findById d pid = Some p \<and> author p \<noteq> ru_id u0 \<and> ru_role u0 \<noteq> AdminRole"
  then show "updatePost d u0 pid b = (d, fail_json 403 ''Not authorized to update this post'')"
    and "deletePost d u0 pid = (d, fail_json 403 ''Not authorized to delete this post'')"
    by (simp_all add: updatePost_forbidden deletePost_forbidden)
next
  assume "Post_findById d pid = Some p \<and> (author p = ru_id u \<or> ru_role u = AdminRole)"
    and "b_category b0 = Some c \<and> Category_findById d c = None"
  then show "updatePost d u pid b0 = (d, fail_json 400 ''Invalid category'')"
    using updatePost_invalid_category by blast
next
  assume "Post_findById d pid = Some p \<and> (author p = ru_id u \<or> ru_role u = AdminRole)"
    and "accepts_writes d"
  then show "\<exists>d'. deletePost d u pid
                   = (d', ok_json 200 (Some ''Post deleted successfully'') NoData)
                 \<and> Post_findById d' pid = None"
    using deletePost_authorised by blast
next
  assume "Post_findById d pid = Some p \<and> (author p = ru_id u \<or> ru_role u = AdminRole)"
    and "accepts_writes d"
    and "(\<forall>c. b_category b = Some c \<longrightarrow> Category_findById d c \<noteq> None) \<and> update_valid b"
  then show "\<exists>d'. updatePost d u pid b
                       = (d', ok_json 200 (Some ''Post updated successfully'')
                                (PostData (apply_update b p)))
                     \<and> Post_findById d' pid = Some (apply_update b p)"
    using updatePost_authorised[of d pid p u b] by blast
qed

theorem post_mutation_access_witness:
  "Post_findById blog 99 = None
   \<and> updatePost blog alice 99 to_draft = (blog, fail_json 404 ''Post not found'')
   \<and> deletePost blog alice 99 = (blog, fail_json 404 ''Post not found'')
   \<and> Post_findById blog 10 = Some hello
   \<and> author hello \<noteq> ru_id bob \<and> ru_role bob \<noteq> AdminRole
   \<and> updatePost blog bob 10 to_draft
       = (blog, fail_json 403 ''Not authorized to update this post'')
   \<and> deletePost blog bob 10 = (blog, fail_json 403 ''Not authorized to delete this post'')
   \<and> author hello = ru_id alice
   \<and> b_category to_nowhere = Some 99 \<and> Category_findById blog 99 = None
   \<and> updatePost blog alice 10 to_nowhere = (blog, fail_json 400 ''Invalid category'')
   \<and> accepts_writes blog
   \<and> (\<exists>d'. deletePost blog alice 10
              = (d', ok_json 200 (Some ''Post deleted successfully'') NoData)
            \<and> Post_findById d' 10 = None)
   \<and> b_category to_draft = None \<and> update_valid to_draft
   \<and> (\<exists>d'. updatePost blog alice 10 to_draft
              = (d', ok_json 200 (Some ''Post updated successfully'')
                       (PostData (hello\<lparr>status := Draft\<rparr>)))
            \<and> Post_findById d' 10 = Some (hello\<lparr>status := Draft\<rparr>))"
proof -
  have h1: "Post_findById blog 99 = None"
    by (simp add: Post_findById_def blog_def hello_def)
  have h2: "Post_findById blog 10 = Some hello"
    by (simp add: Post_findById_def blog_def hello_def)
  have h3: "author hello \<noteq> ru_id bob" "ru_role bob \<noteq> AdminRole"
    by (simp_all add: hello_def bob_def)
  have h4: "author hello = ru_id alice" by (simp add: hello_def alice_def)
  have h5: "b_category to_nowhere = Some 99" "Category_findById blog 99 = None"
    by (simp_all add: to_nowhere_def Category_findById_def blog_def tech_def)
  have h6: "accepts_writes blog" by (simp add: blog_def)
  have h7: "b_category to_draft = None" "update_valid to_draft"
    by (simp_all add: to_draft_def update_valid_def)
  have h8: "\<forall>c. b_category to_draft = Some c \<longrightarrow> Category_findById blog c \<noteq> None"
    by (simp add: h7)
  have ap: "apply_update to_draft hello = hello\<lparr>status := Draft\<rparr>"
    by (simp add: apply_update_def to_draft_def hello_def)
  note th = post_mutation_access[where d=blog and ?pid0.0=99 and pid=10 and p=hello
      and ?u0.0=bob and u=alice and ?b0.0=to_nowhere and c=99 and b=to_draft]
  note a = th[THEN conjunct1, rule_format, OF h1]
  note f = th[THEN conjunct2, THEN conjunct1, rule_format, OF conjI, OF h2 conjI, OF h3]
  note ok = th[THEN conjunct2, THEN conjunct2, rule_format, OF conjI, OF h2 disjI1, OF h4]
  note bad = ok[THEN conjunct1, rule_format, OF conjI, OF h5]
  note good = ok[THEN conjunct2, rule_format, OF h6]
  note del = good[THEN conjunct1]
  note upd = good[THEN conjunct2, rule_format, OF conjI, OF h8 h7(2), unfolded ap]
  show ?thesis
    by (intro conjI) (fact h1 a[THEN conjunct1] a[THEN conjunct2] h2 h3 f[THEN conjunct1]
        f[THEN conjunct2] h4 h5 bad h6 del h7 upd)+
qed

text \<open>
  The claim as stated fails for an update: the author of a post who names a category
  that does not exist is answered 400, and the post is not changed.
\<close>

theorem post_mutation_access_counterexample:
  "Post_findById blog 10 = Some hello
   \<and> author hello = ru_id alice
   \<and> updatePost blog alice 10 to_nowhere = (blog, fail_json 400 ''Invalid category'')"
  by (simp add: updatePost_def Post_findById_def Category_findById_def blog_def hello_def
      alice_def to_nowhere_def tech_def)

section \<open>Category post count\<close>

lemma Category_findById_id: "Category_findById d i = Some c \<Longrightarrow> cat_id c = i"
  by (auto simp: Category_findById_def find_Some_iff)

lemma updatePostCount_result:
  assumes "updatePostCount d1 c = Inr (d2, c')" "Category_findById d1 (cat_id c) = Some x"
  shows "Category_findById d2 (cat_id c) = Some c'
         \<and> postCount c' = Post_countDocuments d2 (cat_id c) Published
         \<and> posts d2 = posts d1"
proof -
  let ?c = "c\<lparr>postCount := Post_countDocuments d1 (cat_id c) Published\<rparr>"
  from assms(1) have c': "c' = ?c"
    and d2: "d2 = d1\<lparr>categories := map (\<lambda>q. if cat_id q = cat_id c then ?c else q) (categories d1)\<rparr>"
    by (auto simp: updatePostCount_def Category_save_def Let_def split: if_splits)
  have "find (\<lambda>q. cat_id q = cat_id c)
          (map (\<lambda>q. if cat_id q = cat_id c then ?c else q) (categories d1)) = Some ?c"
    using assms(2)
    by (intro find_map_replace[where P="\<lambda>q. cat_id q = cat_id c"])
       (simp_all add: Category_findById_def)
  then show ?thesis
    by (simp add: c' d2 Category_findById_def Post_countDocuments_def)
qed

lemma Post_create_categories:
  "Post_create d t c cid a tg st = Inr (d1, p) \<Longrightarrow> categories d1 = categories d"
  by (auto simp: Post_create_def Let_def split: option.splits if_splits)

lemma createPost_count:
  assumes "createPost d u b = (d', r)" "status_code r = 201"
  shows "\<exists>cid. b_category b = Some cid
           \<and> map_option postCount (Category_findById d' cid)
               = Some (Post_countDocuments d' cid Published)"
proof -
  from assms obtain cid cat d1 p c' where cid: "b_category b = Some cid"
    and cat: "Category_findById d cid = Some cat"
    and cr: "Post_create d (b_title b) (b_content b) cid (ru_id u)
               (case b_tags b of None \<Rightarrow> [] | Some ts \<Rightarrow> ts)
               (case b_status b of None \<Rightarrow> Published | Some s \<Rightarrow> s) = Inr (d1, p)"
    and upc: "updatePostCount d1 cat = Inr (d', c')"
    by (auto simp: createPost_def fail_json_def split: option.splits sum.splits)
  have id: "cat_id cat = cid" using cat by (rule Category_findById_id)
  have "Category_findById d1 (cat_id cat) = Some cat"
    using cat Post_create_categories[OF cr] by (simp add: Category_findById_def id)
  from updatePostCount_result[OF upc this] show ?thesis
    using cid id by simp
qed

lemma deletePost_count:
  assumes "deletePost d u pid = (d', r)" "status_code r = 200"
    and "Post_findById d pid = Some p" "Category_findById d (category p) = Some c"
  shows "map_option postCount (Category_findById d' (category p))
           = Some (Post_countDocuments d' (category p) Published)"
proof -
  from assms(1-3) obtain d1 where del: "Post_findByIdAndDelete d pid = Inr d1"
    by (auto simp: deletePost_def fail_json_def split: sum.splits if_splits)
  then have cats: "categories d1 = categories d"
    by (auto simp: Post_findByIdAndDelete_def split: if_splits)
  then have c1: "Category_findById d1 (category p) = Some c"
    using assms(4) by (simp add: Category_findById_def)
  have id: "cat_id c = category p" using assms(4) by (rule Category_findById_id)
  from assms(1-3) del c1 obtain c' where upc: "updatePostCount d1 c = Inr (d', c')"
    by (auto simp: deletePost_def fail_json_def split: sum.splits if_splits)
  from updatePostCount_result[OF upc] c1 id show ?thesis by simp
qed

lemma updatePost_categories: "categories (fst (updatePost d u pid b)) = categories d"
  by (auto simp: updatePost_def Post_findByIdAndUpdate_def split: option.splits if_splits)

section \<open>View counting\<close>

lemma getPost_found:
  assumes "Post_findById d pid = Some p"
  shows "getPost d pid =
           (if accepts_writes d
            then (d\<lparr>posts := map (\<lambda>q. if post_id q = pid then p\<lparr>views := views p + 1\<rparr> else q)
                              (posts d)\<rparr>,
                  ok_json 200 None (PostData (p\<lparr>views := views p + 1\<rparr>)))
            else (d, fail_json 500 ''Server error retrieving post''))"
  using assms Post_findById_id[OF assms]
  by (simp add: getPost_def Post_save_def Let_def)

lemma getPost_stored:
  assumes "Post_findById d pid = Some p" "accepts_writes d"
  shows "Post_findById (fst (getPost d pid)) pid = Some (p\<lparr>views := views p + 1\<rparr>)"
    and "accepts_writes (fst (getPost d pid))"
proof -
  have "post_id (p\<lparr>views := views p + 1\<rparr>) = pid"
    using Post_findById_id[OF assms(1)] by simp
  then have "find (\<lambda>q. post_id q = pid)
          (map (\<lambda>q. if post_id q = pid then p\<lparr>views := views p + 1\<rparr> else q) (posts d))
        = Some (p\<lparr>views := views p + 1\<rparr>)"
    using assms(1)
    by (intro find_map_replace[where P="\<lambda>q. post_id q = pid"])
       (simp_all add: Post_findById_def)
  then show "Post_findById (fst (getPost d pid)) pid = Some (p\<lparr>views := views p + 1\<rparr>)"
    using assms by (simp add: getPost_found Post_findById_def)
  show "accepts_writes (fst (getPost d pid))"
    using assms by (simp add: getPost_found)
qed

lemma getPost_success:
  assumes "getPost d pid = (d', r)" "status_code r = 200"
  shows "\<exists>p. Post_findById d pid = Some p
           \<and> Post_findById d' pid = Some (p\<lparr>views := views p + 1\<rparr>)
           \<and> data r = PostData (p\<lparr>views := views p + 1\<rparr>)"
proof (cases "Post_findById d pid")
  case None
  with assms show ?thesis by (auto simp: getPost_def fail_json_def)
next
  case (Some p)
  with assms have w: "accepts_writes d"
    by (auto simp: getPost_found fail_json_def split: if_splits)
  from getPost_stored(1)[OF Some w] assms(1) have "Post_findById d' pid = Some (p\<lparr>views := views p + 1\<rparr>)"
    by simp
  moreover have "data r = PostData (p\<lparr>views := views p + 1\<rparr>)"
    using assms(1) Some w by (auto simp: getPost_found ok_json_def)
  ultimately show ?thesis using Some by blast
qed

lemma upt_map_shift: "map f [0..<Suc n] = f 0 # map (\<lambda>k. f (Suc k)) [0..<n]"
  by (simp only: upt_conv_Cons[OF zero_less_Suc] list.map map_Suc_upt[symmetric] map_map o_def)

lemma getPost_times_views:
  "Post_findById d pid = Some p \<Longrightarrow> accepts_writes d \<Longrightarrow>
   \<exists>d'. getPost_times n d pid
          = (d', map (\<lambda>k. ok_json 200 None (PostData (p\<lparr>views := views p + k + 1\<rparr>))) [0..<n])
       \<and> Post_findById d' pid = Some (p\<lparr>views := views p + n\<rparr>)"
proof (induction n arbitrary: d p)
  case 0
  then show ?case by simp
next
  case (Suc n)
  let ?p = "p\<lparr>views := views p + 1\<rparr>"
  obtain d1 where g: "getPost d pid = (d1, ok_json 200 None (PostData ?p))"
    using Suc.prems by (simp add: getPost_found)
  have s1: "Post_findById d1 pid = Some ?p" and w1: "accepts_writes d1"
    using getPost_stored[OF Suc.prems] g by simp_all
  from Suc.IH[OF s1 w1] obtain d' where
    t: "getPost_times n d1 pid
          = (d', map (\<lambda>k. ok_json 200 None (PostData (?p\<lparr>views := views ?p + k + 1\<rparr>))) [0..<n])"
    and f: "Post_findById d' pid = Some (?p\<lparr>views := views ?p + n\<rparr>)" by blast
  have "getPost_times (Suc n) d pid
          = (d', map (\<lambda>k. ok_json 200 None (PostData (p\<lparr>views := views p + k + 1\<rparr>))) [0..<Suc n])"
    unfolding upt_map_shift using g t by simp
  moreover have "Post_findById d' pid = Some (p\<lparr>views := views p + Suc n\<rparr>)"
    using f by simp
  ultimately show ?case by blast
qed

text \<open>
  C4. The claim asks that after every mutation that creates a post, deletes a post or
  changes a post's category or status, the stored \<open>postCount\<close> of the category equals
  the re-queried count of its published posts. \<open>createPost\<close> and \<open>deletePost\<close>
  recompute the count (\<open>createPost_count\<close>, \<open>deletePost_count\<close>); \<open>updatePost\<close>
  never writes a category (\<open>updatePost_categories\<close>). Here the author moves the only
  published post of a category to draft: before the request the stored count and the
  re-queried count are both 1; the update succeeds, the post is a draft, the stored
  count is still 1 and the re-queried count is 0.
\<close>

theorem updatePost_count_stale:
  "map_option postCount (Category_findById blog 5) = Some 1
   \<and> Post_countDocuments blog 5 Published = 1
   \<and> status_code (snd (updatePost blog alice 10 to_draft)) = 200
   \<and> map_option status (Post_findById (fst (updatePost blog alice 10 to_draft)) 10) = Some Draft
   \<and> map_option postCount (Category_findById (fst (updatePost blog alice 10 to_draft)) 5) = Some 1
   \<and> Post_countDocuments (fst (updatePost blog alice 10 to_draft)) 5 Published = 0"
proof -
  have u: "updatePost blog alice 10 to_draft
             = (blog\<lparr>posts := [hello\<lparr>status := Draft\<rparr>]\<rparr>,
                ok_json 200 (Some ''Post updated successfully'')
                  (PostData (hello\<lparr>status := Draft\<rparr>)))"
    by (simp add: updatePost_def Post_findById_def Post_findByIdAndUpdate_def update_valid_def
        apply_update_def blog_def hello_def alice_def to_draft_def)
  show ?thesis
    unfolding u
    by (simp add: Category_findById_def Post_countDocuments_def Post_findById_def ok_json_def
        blog_def hello_def tech_def)
qed

text \<open>
  C5 (amended). Every successful single-post retrieval increments that post's view
  counter by exactly one, in the store and in the answer; \<open>n\<close> retrievals of the same
  post, one after the other against a store that accepts writes, all succeed, the
  \<open>k\<close>-th answer carries the counter raised by \<open>k\<close>, and the stored counter ends
  raised by \<open>n\<close>. The increment is saved before the answer is sent: when the store
  rejects the write the retrieval fails with 500 and the counter is unchanged.
\<close>

theorem getPost_views:
  "(getPost d pid = (d', r) \<and> status_code r = 200 \<longrightarrow>
      (\<exists>p. Post_findById d pid = Some p
          \<and> Post_findById d' pid = Some (p\<lparr>views := views p + 1\<rparr>)
          \<and> data r = PostData (p\<lparr>views := views p + 1\<rparr>)))
   \<and> (Post_findById d pid = Some q \<and> accepts_writes d \<longrightarrow>
      (\<exists>d''. getPost_times n d pid
                = (d'', map (\<lambda>k. ok_json 200 None (PostData (q\<lparr>views := views q + k + 1\<rparr>)))
                          [0..<n])
            \<and> Post_findById d'' pid = Some (q\<lparr>views := views q + n\<rparr>)))
   \<and> (Post_findById d0 pid = Some q \<and> \<not> accepts_writes d0 \<longrightarrow>
      getPost d0 pid = (d0, fail_json 500 ''Server error retrieving post''))"
proof (intro conjI impI)
  assume "getPost d pid = (d', r) \<and> status_code r = 200"
  then show "\<exists>p. Post_findById d pid = Some p
          \<and> Post_findById d' pid = Some (p\<lparr>views := views p + 1\<rparr>)
          \<and> data r = PostData (p\<lparr>views := views p + 1\<rparr>)"
    using getPost_success by blast
next
  assume "Post_findById d pid = Some q \<and> accepts_writes d"
  then show "\<exists>d''. getPost_times n d pid
                = (d'', map (\<lambda>k. ok_json 200 None (PostData (q\<lparr>views := views q + k + 1\<rparr>)))
                          [0..<n])
            \<and> Post_findById d'' pid = Some (q\<lparr>views := views q + n\<rparr>)"
    using getPost_times_views by blast
next
  assume "Post_findById d0 pid = Some q \<and> \<not> accepts_writes d0"
  then show "getPost d0 pid = (d0, fail_json 500 ''Server error retrieving post'')"
    by (simp add: getPost_found)
qed

theorem getPost_views_witness:
  "getPost blog 10 = (blog\<lparr>posts := [hello\<lparr>views := 1\<rparr>]\<rparr>,
                      ok_json 200 None (PostData (hello\<lparr>views := 1\<rparr>)))
   \<and> status_code (ok_json 200 None (PostData (hello\<lparr>views := 1\<rparr>))) = 200
   \<and> (\<exists>p. Post_findById blog 10 = Some p
          \<and> Post_findById (blog\<lparr>posts := [hello\<lparr>views := 1\<rparr>]\<rparr>) 10
               = Some (p\<lparr>views := views p + 1\<rparr>)
          \<and> data (ok_json 200 None (PostData (hello\<lparr>views := 1\<rparr>)))
               = PostData (p\<lparr>views := views p + 1\<rparr>))
   \<and> Post_findById blog 10 = Some hello \<and> accepts_writes blog
   \<and> (\<exists>d''. getPost_times 3 blog 10
                = (d'', map (\<lambda>k. ok_json 200 None (PostData (hello\<lparr>views := views hello + k + 1\<rparr>)))
                          [0..<3])
            \<and> Post_findById d'' 10 = Some (hello\<lparr>views := views hello + 3\<rparr>))
   \<and> Post_findById blog_down 10 = Some hello \<and> \<not> accepts_writes blog_down
   \<and> getPost blog_down 10 = (blog_down, fail_json 500 ''Server error retrieving post'')"
proof -
  have h1: "getPost blog 10 = (blog\<lparr>posts := [hello\<lparr>views := 1\<rparr>]\<rparr>,
                      ok_json 200 None (PostData (hello\<lparr>views := 1\<rparr>)))"
    by (simp add: getPost_def Post_findById_def Post_save_def Let_def blog_def hello_def)
  have h2: "status_code (ok_json 200 None (PostData (hello\<lparr>views := 1\<rparr>))) = 200"
    by (simp add: ok_json_def)
  have h3: "Post_findById blog 10 = Some hello"
    by (simp add: Post_findById_def blog_def hello_def)
  have h4: "accepts_writes blog" by (simp add: blog_def)
  have h5: "Post_findById blog_down 10 = Some hello"
    by (simp add: Post_findById_def blog_down_def blog_def hello_def)
  have h6: "\<not> accepts_writes blog_down" by (simp add: blog_down_def)
  note th = getPost_views[where d=blog and pid=10 and d'="blog\<lparr>posts := [hello\<lparr>views := 1\<rparr>]\<rparr>"
      and r="ok_json 200 None (PostData (hello\<lparr>views := 1\<rparr>))" and q=hello and n=3
      and ?d0.0=blog_down]
  note c1 = th[THEN conjunct1, rule_format, OF conjI, OF h1 h2]
  note c2 = th[THEN conjunct2, THEN conjunct1, rule_format, OF conjI, OF h3 h4]
  note c3 = th[THEN conjunct2, THEN conjunct2, rule_format, OF conjI, OF h5 h6]
  show ?thesis
    by (intro conjI) (fact h1 h2 c1 h3 h4 c2 h5 h6 c3)+
qed

text \<open>
  The claim as stated fails in its second half: the post exists, the store rejects the
  write of the incremented counter, and the retrieval is answered 500.
\<close>

theorem getPost_views_counterexample:
  "Post_findById blog_down 10 = Some hello
   \<and> \<not> accepts_writes blog_down
   \<and> getPost blog_down 10 = (blog_down, fail_json 500 ''Server error retrieving post'')"
  by (simp add: getPost_def Post_findById_def Post_save_def blog_down_def blog_def hello_def)

section \<open>Tokens and the authentication gate\<close>

lemma verifyToken_Inr_iff:
  "verifyToken rt now t = Inr p \<longleftrightarrow>
     (\<exists>j. jwt_decode rt t = Some j \<and> signed_with j = JWT_SECRET rt
          \<and> (\<forall>e. exp (payload j) = Some e \<longrightarrow> now < e) \<and> p = payload j)"
  by (auto simp: verifyToken_def jwt_verify_def split: option.splits sum.splits if_splits)

lemma verifyToken_cases:
  "(\<exists>p. verifyToken rt now t = Inr p) \<or> verifyToken rt now t = Inl InvalidToken"
  by (auto simp: verifyToken_def split: sum.splits)

lemma verifyToken_issued:
  assumes "jwt_decode rt (generateToken rt t0 uid)
             = Some \<lparr>signed_with = JWT_SECRET rt,
                     payload = \<lparr>userId = uid, iat = t0, exp = Some (t0 + JWT_EXPIRE rt)\<rparr>\<rparr>"
  shows "verifyToken rt now (generateToken rt t0 uid)
           = (if now < t0 + JWT_EXPIRE rt
              then Inr \<lparr>userId = uid, iat = t0, exp = Some (t0 + JWT_EXPIRE rt)\<rparr>
              else Inl InvalidToken)"
  using assms by (simp add: verifyToken_def jwt_verify_def)

lemma JWT_EXPIRE_default: "env_JWT_EXPIRE rt = None \<Longrightarrow> JWT_EXPIRE rt = 7 * 24 * 60 * 60"
  by (simp add: JWT_EXPIRE_def)

lemma authenticate_invalid:
  "startsWith h ''Bearer '' \<Longrightarrow> verifyToken rt now (bearer_token h) = Inl InvalidToken \<Longrightarrow>
   authenticate rt d now (Some h) = (d, Respond (fail_json 401 ''Token is not valid.''))"
  by (simp add: authenticate_def)

lemma User_findById_id: "User_findById d i = Some u \<Longrightarrow> user_id u = i"
  by (auto simp: User_findById_def find_Some_iff)

lemma User_save_findById:
  assumes "User_findById d i = Some u" "user_id u' = i" "accepts_writes d"
  shows "\<exists>d'. User_save d u' = Inr d' \<and> User_findById d' i = Some u'
           \<and> posts d' = posts d \<and> categories d' = categories d"
  using assms find_map_replace[where P="\<lambda>q. user_id q = i" and xs="users d" and x=u and y=u']
  by (simp add: User_save_def User_findById_def)

lemma authenticate_resolved:
  assumes "startsWith h ''Bearer ''" "verifyToken rt now (bearer_token h) = Inr p"
    and "User_findById d (userId p) = Some u" "isActive u"
  shows "accepts_writes d \<Longrightarrow>
           \<exists>d'. authenticate rt d now (Some h)
                   = (d', Next (select_no_password (u\<lparr>lastLogin := Some now\<rparr>)))
               \<and> map_option lastLogin (User_findById d' (userId p)) = Some (Some now)"
    and "\<not> accepts_writes d \<Longrightarrow>
           authenticate rt d now (Some h) = (d, Respond (fail_json 401 ''Token is not valid.''))"
proof -
  assume w: "accepts_writes d"
  have "user_id (u\<lparr>lastLogin := Some now\<rparr>) = userId p"
    using User_findById_id[OF assms(3)] by simp
  from User_save_findById[OF assms(3) this w] obtain d' where
    s: "User_save d (u\<lparr>lastLogin := Some now\<rparr>) = Inr d'"
    and f: "User_findById d' (userId p) = Some (u\<lparr>lastLogin := Some now\<rparr>)" by blast
  have "authenticate rt d now (Some h)
          = (d', Next (select_no_password (u\<lparr>lastLogin := Some now\<rparr>)))"
    using assms s by (simp add: authenticate_def)
  with f show "\<exists>d'. authenticate rt d now (Some h)
                   = (d', Next (select_no_password (u\<lparr>lastLogin := Some now\<rparr>)))
               \<and> map_option lastLogin (User_findById d' (userId p)) = Some (Some now)"
    by auto
next
  assume "\<not> accepts_writes d"
  then show "authenticate rt d now (Some h) = (d, Respond (fail_json 401 ''Token is not valid.''))"
    using assms by (simp add: authenticate_def User_save_def)
qed

text \<open>
  C3. \<open>verifyToken\<close> succeeds, and returns the claims the token carries (the account
  identifier among them), if and only if the token decodes, its signature matches the
  server secret and the expiry it carries has not been reached; in every other case
  it fails with \<open>InvalidToken\<close>, and there is no third outcome. For a token issued by
  \<open>generateToken\<close> at \<open>t0\<close> the expiry is \<open>t0\<close> plus the configured lifetime, seven
  days when the variable is not set, so verification at \<open>now\<close> returns the account
  identifier exactly when \<open>now < t0 + JWT_EXPIRE\<close>. The gate answers 401 on a token
  that fails, and leaves the store as it is.
\<close>

theorem verifyToken_valid_iff:
  "(verifyToken rt now t = Inr p \<longleftrightarrow>
      (\<exists>j. jwt_decode rt t = Some j \<and> signed_with j = JWT_SECRET rt
           \<and> (\<forall>e. exp (payload j) = Some e \<longrightarrow> now < e) \<and> p = payload j))
   \<and> ((\<exists>p'. verifyToken rt now t = Inr p') \<or> verifyToken rt now t = Inl InvalidToken)
   \<and> (jwt_decode rt (generateToken rt t0 uid)
         = Some \<lparr>signed_with = JWT_SECRET rt,
                 payload = \<lparr>userId = uid, iat = t0, exp = Some (t0 + JWT_EXPIRE rt)\<rparr>\<rparr> \<longrightarrow>
       verifyToken rt now (generateToken rt t0 uid)
         = (if now < t0 + JWT_EXPIRE rt
            then Inr \<lparr>userId = uid, iat = t0, exp = Some (t0 + JWT_EXPIRE rt)\<rparr>
            else Inl InvalidToken))
   \<and> (env_JWT_EXPIRE rt = None \<longrightarrow> JWT_EXPIRE rt = 7 * 24 * 60 * 60)
   \<and> (startsWith h ''Bearer '' \<and> verifyToken rt now (bearer_token h) = Inl InvalidToken \<longrightarrow>
       authenticate rt d now (Some h) = (d, Respond (fail_json 401 ''Token is not valid.'')))"
proof (intro conjI impI)
  show "verifyToken rt now t = Inr p \<longleftrightarrow>
      (\<exists>j. jwt_decode rt t = Some j \<and> signed_with j = JWT_SECRET rt
           \<and> (\<forall>e. exp (payload j) = Some e \<longrightarrow> now < e) \<and> p = payload j)"
    by (rule verifyToken_Inr_iff)
next
  show "(\<exists>p'. verifyToken rt now t = Inr p') \<or> verifyToken rt now t = Inl InvalidToken"
    by (rule verifyToken_cases)
next
  assume "jwt_decode rt (generateToken rt t0 uid)
         = Some \<lparr>signed_with = JWT_SECRET rt,
                 payload = \<lparr>userId = uid, iat = t0, exp = Some (t0 + JWT_EXPIRE rt)\<rparr>\<rparr>"
  then show "verifyToken rt now (generateToken rt t0 uid)
         = (if now < t0 + JWT_EXPIRE rt
            then Inr \<lparr>userId = uid, iat = t0, exp = Some (t0 + JWT_EXPIRE rt)\<rparr>
            else Inl InvalidToken)"
    by (rule verifyToken_issued)
next
  assume "env_JWT_EXPIRE rt = None"
  then show "JWT_EXPIRE rt = 7 * 24 * 60 * 60" by (rule JWT_EXPIRE_default)
next
  assume "startsWith h ''Bearer '' \<and> verifyToken rt now (bearer_token h) = Inl InvalidToken"
  then show "authenticate rt d now (Some h) = (d, Respond (fail_json 401 ''Token is not valid.''))"
    by (simp add: authenticate_invalid)
qed

theorem verifyToken_valid_iff_witness:
  "generateToken demo_rt 1000 1 = ''tok-alice''
   \<and> jwt_decode demo_rt ''tok-alice'' = Some alice_jws
   \<and> env_JWT_EXPIRE demo_rt = None
   \<and> JWT_EXPIRE demo_rt = 604800
   \<and> verifyToken demo_rt 2000 ''tok-alice'' = Inr \<lparr>userId = 1, iat = 1000, exp = Some 605800\<rparr>
   \<and> verifyToken demo_rt 605800 ''tok-alice'' = Inl InvalidToken
   \<and> startsWith ''Bearer junk'' ''Bearer ''
   \<and> verifyToken demo_rt 2000 (bearer_token ''Bearer junk'') = Inl InvalidToken
   \<and> authenticate demo_rt members 2000 (Some ''Bearer junk'')
       = (members, Respond (fail_json 401 ''Token is not valid.''))"
proof -
  have sec: "JWT_SECRET demo_rt = ''your-secret-key-change-in-production''"
    by (simp add: JWT_SECRET_def demo_rt_def)
  have h0: "env_JWT_EXPIRE demo_rt = None" by (simp add: demo_rt_def)
  note th = verifyToken_valid_iff[where rt=demo_rt and ?t0.0=1000 and uid=1 and now=2000
      and h="''Bearer junk''" and d=members and t="''junk''"
      and p="\<lparr>userId = 1, iat = 1000, exp = Some 605800\<rparr>"]
  note th' = verifyToken_valid_iff[where rt=demo_rt and ?t0.0=1000 and uid=1 and now=605800
      and h="''Bearer junk''" and d=members and t="''junk''"
      and p="\<lparr>userId = 1, iat = 1000, exp = Some 605800\<rparr>"]
  have ex: "JWT_EXPIRE demo_rt = 604800"
    using th[THEN conjunct2, THEN conjunct2, THEN conjunct2, THEN conjunct1, rule_format, OF h0]
    by simp
  have enc: "jwt_encode demo_rt alice_jws = ''tok-alice''" by (simp add: demo_rt_def)
  have "generateToken demo_rt 1000 1 = jwt_encode demo_rt alice_jws"
    by (simp add: generateToken_def jwt_sign_def sec ex alice_jws_def)
  with enc have g: "generateToken demo_rt 1000 1 = ''tok-alice''" by simp
  have dc: "jwt_decode demo_rt ''tok-alice'' = Some alice_jws" by (simp add: demo_rt_def)
  have h1: "jwt_decode demo_rt (generateToken demo_rt 1000 1)
         = Some \<lparr>signed_with = JWT_SECRET demo_rt,
                 payload = \<lparr>userId = 1, iat = 1000, exp = Some (1000 + JWT_EXPIRE demo_rt)\<rparr>\<rparr>"
    unfolding g dc sec ex by (simp add: alice_jws_def)
  have v1: "verifyToken demo_rt 2000 ''tok-alice''
              = Inr \<lparr>userId = 1, iat = 1000, exp = Some 605800\<rparr>"
    using th[THEN conjunct2, THEN conjunct2, THEN conjunct1, rule_format, OF h1]
    unfolding g ex by simp
  have v2: "verifyToken demo_rt 605800 ''tok-alice'' = Inl InvalidToken"
    using th'[THEN conjunct2, THEN conjunct2, THEN conjunct1, rule_format, OF h1]
    unfolding g ex by simp
  have h2: "startsWith ''Bearer junk'' ''Bearer ''" by (simp add: startsWith_def)
  have h3: "verifyToken demo_rt 2000 (bearer_token ''Bearer junk'') = Inl InvalidToken"
    by (simp add: verifyToken_def jwt_verify_def bearer_token_def demo_rt_def)
  note a = th[THEN conjunct2, THEN conjunct2, THEN conjunct2, THEN conjunct2, rule_format,
      OF conjI, OF h2 h3]
  show ?thesis
    by (intro conjI) (fact g dc h0 ex v1 v2 h2 h3 a)+
qed

text \<open>
  C6 (amended). In the authentication gate the last-login stamp is written before the
  request is handed on: for a request carrying a valid token that names an existing
  active account, the gate stamps the account and continues with it when the store
  accepts the write, and answers 401 when the store rejects the write.
\<close>

theorem authenticate_lastLogin:
  "startsWith h ''Bearer '' \<and> verifyToken rt now (bearer_token h) = Inr p
     \<and> User_findById d (userId p) = Some u \<and> isActive u \<longrightarrow>
   (accepts_writes d \<longrightarrow>
      (\<exists>d'. authenticate rt d now (Some h)
               = (d', Next (select_no_password (u\<lparr>lastLogin := Some now\<rparr>)))
           \<and> map_option lastLogin (User_findById d' (userId p)) = Some (Some now)))
   \<and> (\<not> accepts_writes d \<longrightarrow>
      authenticate rt d now (Some h) = (d, Respond (fail_json 401 ''Token is not valid.'')))"
  using authenticate_resolved[of h rt now p d u] by blast

theorem authenticate_lastLogin_witness:
  "startsWith ''Bearer tok-alice'' ''Bearer ''
   \<and> verifyToken demo_rt 2000 (bearer_token ''Bearer tok-alice'') = Inr (payload alice_jws)
   \<and> User_findById members (userId (payload alice_jws)) = Some alice_doc
   \<and> User_findById members_down (userId (payload alice_jws)) = Some alice_doc
   \<and> isActive alice_doc
   \<and> accepts_writes members
   \<and> (\<exists>d'. authenticate demo_rt members 2000 (Some ''Bearer tok-alice'')
               = (d', Next (select_no_password (alice_doc\<lparr>lastLogin := Some 2000\<rparr>)))
           \<and> map_option lastLogin (User_findById d' (userId (payload alice_jws)))
               = Some (Some 2000))
   \<and> \<not> accepts_writes members_down
   \<and> authenticate demo_rt members_down 2000 (Some ''Bearer tok-alice'')
       = (members_down, Respond (fail_json 401 ''Token is not valid.''))"
proof -
  have h1: "startsWith ''Bearer tok-alice'' ''Bearer ''" by (simp add: startsWith_def)
  have h2: "verifyToken demo_rt 2000 (bearer_token ''Bearer tok-alice'') = Inr (payload alice_jws)"
    by (simp add: verifyToken_def jwt_verify_def bearer_token_def JWT_SECRET_def demo_rt_def
        alice_jws_def)
  have h3: "User_findById members (userId (payload alice_jws)) = Some alice_doc"
    by (simp add: User_findById_def members_def alice_jws_def alice_doc_def)
  have h3': "User_findById members_down (userId (payload alice_jws)) = Some alice_doc"
    by (simp add: User_findById_def members_down_def members_def alice_jws_def alice_doc_def)
  have h4: "isActive alice_doc" by (simp add: alice_doc_def)
  have h5: "accepts_writes members" by (simp add: members_def blog_def)
  have h6: "\<not> accepts_writes members_down" by (simp add: members_down_def)
  note up = authenticate_lastLogin[where h="''Bearer tok-alice''" and rt=demo_rt and now=2000
      and p="payload alice_jws" and d=members and u=alice_doc,
      rule_format, OF conjI, OF h1 conjI, OF h2 conjI, OF h3 h4]
  note down = authenticate_lastLogin[where h="''Bearer tok-alice''" and rt=demo_rt and now=2000
      and p="payload alice_jws" and d=members_down and u=alice_doc,
      rule_format, OF conjI, OF h1 conjI, OF h2 conjI, OF h3' h4]
  note c1 = up[THEN conjunct1, rule_format, OF h5]
  note c2 = down[THEN conjunct2, rule_format, OF h6]
  show ?thesis
    by (intro conjI) (fact h1 h2 h3 h3' h4 h5 c1 h6 c2)+
qed

text \<open>
  The claim as stated fails: the token is valid, the account exists and is active, the
  store rejects the write of the stamp, and the gate answers 401.
\<close>

theorem authenticate_lastLogin_counterexample:
  "verifyToken demo_rt 2000 (bearer_token ''Bearer tok-alice'') = Inr (payload alice_jws)
   \<and> User_findById members_down (userId (payload alice_jws)) = Some alice_doc
   \<and> isActive alice_doc
   \<and> \<not> accepts_writes members_down
   \<and> authenticate demo_rt members_down 2000 (Some ''Bearer tok-alice'')
       = (members_down, Respond (fail_json 401 ''Token is not valid.''))"
proof -
  have v: "verifyToken demo_rt 2000 (bearer_token ''Bearer tok-alice'') = Inr (payload alice_jws)"
    by (simp add: verifyToken_def jwt_verify_def bearer_token_def JWT_SECRET_def demo_rt_def
        alice_jws_def)
  have f: "User_findById members_down (userId (payload alice_jws)) = Some alice_doc"
    by (simp add: User_findById_def members_down_def members_def alice_jws_def alice_doc_def)
  have a: "isActive alice_doc" by (simp add: alice_doc_def)
  have w: "\<not> accepts_writes members_down" by (simp add: members_down_def)
  have "authenticate demo_rt members_down 2000 (Some ''Bearer tok-alice'')
       = (members_down, Respond (fail_json 401 ''Token is not valid.''))"
    by (simp add: authenticate_def startsWith_def v f a User_save_def w)
  with v f a w show ?thesis by blast
qed

section \<open>Registration, login and the ownership gate\<close>

lemma find_is_Some: "\<exists>x\<in>set xs. P x \<Longrightarrow> \<exists>y. find P xs = Some y \<and> y \<in> set xs \<and> P y"
  by (induction xs) auto

lemma find_Some_holds: "find P xs = Some y \<Longrightarrow> y \<in> set xs \<and> P y"
  by (induction xs) (auto split: if_splits)

lemma find_unique:
  assumes "u \<in> set xs" "P u" "\<forall>v\<in>set xs. P v \<longrightarrow> v = u"
  shows "find P xs = Some u"
proof -
  from assms(1,2) have "\<exists>x\<in>set xs. P x" by blast
  from find_is_Some[OF this] obtain y where
    y: "find P xs = Some y" "y \<in> set xs" "P y" by blast
  from assms(3) y(2,3) have "y = u" by blast
  with y(1) show ?thesis by simp
qed

lemma register_existing:
  assumes "find (\<lambda>u. email u = toLowerCase (rb_email b) \<or> username u = rb_username b) (users d)
             = Some x"
  shows "register rt d now b
           = (d, fail_json 400 (if email x = toLowerCase (rb_email b) then ''Email already exists''
                                else ''Username already exists''))"
  using assms by (simp add: register_def)

lemma register_duplicate_aux:
  assumes low: "\<forall>u\<in>set (users d). toLowerCase (email u) = email u"
    and dup: "\<exists>u\<in>set (users d). toLowerCase (email u) = toLowerCase (rb_email b)
                \<or> username u = rb_username b"
  shows "\<exists>msg. register rt d now b = (d, fail_json 400 msg)
           \<and> ((msg = ''Email already exists''
                  \<and> (\<exists>u\<in>set (users d). email u = toLowerCase (rb_email b)))
              \<or> (msg = ''Username already exists''
                  \<and> (\<exists>u\<in>set (users d). username u = rb_username b)))"
proof -
  let ?P = "\<lambda>u. email u = toLowerCase (rb_email b) \<or> username u = rb_username b"
  from dup obtain u where u: "u \<in> set (users d)"
    and m: "toLowerCase (email u) = toLowerCase (rb_email b) \<or> username u = rb_username b"
    by blast
  have e: "toLowerCase (email u) = email u" by (rule low[rule_format, OF u])
  from m[unfolded e] u have "\<exists>u\<in>set (users d). ?P u" by (rule_tac x=u in bexI)
  from find_is_Some[OF this] obtain x where
    x: "find ?P (users d) = Some x" "x \<in> set (users d)" "?P x" by blast
  show ?thesis
  proof (cases "email x = toLowerCase (rb_email b)")
    case True
    then have "register rt d now b = (d, fail_json 400 ''Email already exists'')"
      using register_existing[OF x(1)] by simp
    with True x(2) show ?thesis by blast
  next
    case False
    then have "register rt d now b = (d, fail_json 400 ''Username already exists'')"
      using register_existing[OF x(1)] by simp
    moreover from False x(3) have "username x = rb_username b" by simp
    ultimately show ?thesis using x(2) by blast
  qed
qed

lemma lower_char_idem: "lower_char (lower_char c) = lower_char c"
  by (simp add: lower_char_def)

lemma toLowerCase_idem: "toLowerCase (toLowerCase s) = toLowerCase s"
  by (simp add: toLowerCase_def lower_char_idem)

lemma findByEmailOrUsername_find:
  "findByEmailOrUsername d i
     = find (\<lambda>u. email u = trim (toLowerCase i) \<or> username u = trim i) (users d)"
  by (simp only: findByEmailOrUsername_def toLowerCase_idem)

lemma findByEmailOrUsername_None:
  "findByEmailOrUsername d i = None \<longleftrightarrow>
     \<not> (\<exists>u\<in>set (users d). email u = trim (toLowerCase i) \<or> username u = trim i)"
  unfolding findByEmailOrUsername_find by (auto simp: find_None_iff)

lemma findByEmailOrUsername_Some:
  "findByEmailOrUsername d i = Some v \<Longrightarrow>
     v \<in> set (users d) \<and> (email v = trim (toLowerCase i) \<or> username v = trim i)"
  unfolding findByEmailOrUsername_find by (rule find_Some_holds)

lemma login_username_ok:
  assumes "u \<in> set (users d)" "username u = trim ident"
    and "\<forall>v\<in>set (users d).
           email v = trim (toLowerCase ident) \<or> username v = trim ident \<longrightarrow> v = u"
    and "bcrypt_compare rt pw (password u) = Inr True" "isActive u" "accepts_writes d"
  shows "\<exists>d'. login rt d now \<lparr>lb_email = ident, lb_password = pw\<rparr>
             = (d', ok_json 200 (Some ''Login successful'')
                      (AuthData (user_id u) (username u) (email u) (role u)
                         (generateToken rt now (user_id u))))
           \<and> map_option lastLogin (User_findById d' (user_id u)) = Some (Some now)"
proof -
  have "find (\<lambda>v. email v = trim (toLowerCase ident) \<or> username v = trim ident) (users d)
          = Some u"
    by (rule find_unique[OF assms(1) _ assms(3)]) (simp add: assms(2))
  then have f: "findByEmailOrUsername d ident = Some u"
    by (simp only: findByEmailOrUsername_find)
  have "\<exists>x\<in>set (users d). user_id x = user_id u" using assms(1) by blast
  from find_is_Some[OF this] obtain x where
    "find (\<lambda>q. user_id q = user_id u) (users d) = Some x" by blast
  then have "User_findById d (user_id u) = Some x" by (simp add: User_findById_def)
  from User_save_findById[OF this _ assms(6), of "u\<lparr>lastLogin := Some now\<rparr>"]
  obtain d' where s: "User_save d (u\<lparr>lastLogin := Some now\<rparr>) = Inr d'"
    and g: "User_findById d' (user_id u) = Some (u\<lparr>lastLogin := Some now\<rparr>)" by auto
  have "login rt d now \<lparr>lb_email = ident, lb_password = pw\<rparr>
             = (d', ok_json 200 (Some ''Login successful'')
                      (AuthData (user_id u) (username u) (email u) (role u)
                         (generateToken rt now (user_id u))))"
    using f assms(4,5) s by (simp add: login_def comparePassword_def Let_def)
  with g show ?thesis by auto
qed

lemma checkOwnership_no_author_aux:
  "Model_findById m d rid = Inr (Some r) \<Longrightarrow> resource_author r = None \<Longrightarrow>
   checkOwnership m d u rid = Next r"
  by (simp add: checkOwnership_def)

lemma authorize_admin:
  "authorize [AdminRole] (Some u)
     = (if ru_role u = AdminRole then Next ()
        else Respond (fail_json 403 ''Access denied. Insufficient permissions.''))"
  by (simp add: authorize_def)

text \<open>The password check is the library's: \<open>comparePassword\<close> has no handler of its own,
  and \<open>login\<close> turns a rejection into a 500.\<close>

lemma comparePassword_is_library:
  "comparePassword rt u pw = bcrypt_compare rt pw (password u)"
  by (simp add: comparePassword_def)

lemma login_compare_rejects:
  "findByEmailOrUsername d (lb_email b) = Some u \<Longrightarrow>
   bcrypt_compare rt (lb_password b) (password u) = Inl e \<Longrightarrow>
   login rt d now b = (d, fail_json 500 ''Server error during login'')"
  by (simp add: login_def comparePassword_def)

text \<open>Stored emails are lower case: the invariant holds of the empty store and
  \<open>register\<close>, the one operation that adds an account, keeps it.\<close>

lemma set_trim: "set (trim s) \<subseteq> set s"
proof
  fix c assume "c \<in> set (trim s)"
  then have "c \<in> set (dropWhile is_space (rev (dropWhile is_space s)))"
    by (simp add: trim_def)
  then have "c \<in> set (rev (dropWhile is_space s))" by (rule set_dropWhileD)
  then show "c \<in> set s" by (auto dest: set_dropWhileD)
qed

lemma trim_toLowerCase_lower:
  "toLowerCase (trim (toLowerCase s)) = trim (toLowerCase s)"
proof -
  have "\<forall>c\<in>set (trim (toLowerCase s)). lower_char c = c"
  proof
    fix c assume "c \<in> set (trim (toLowerCase s))"
    with set_trim have "c \<in> set (toLowerCase s)" by blast
    then obtain c' where "c = lower_char c'" by (auto simp: toLowerCase_def)
    then show "lower_char c = c" by (simp add: lower_char_idem)
  qed
  then show ?thesis unfolding toLowerCase_def[of "trim _"] by (simp add: map_idI)
qed

lemma User_create_result:
  assumes "User_create rt d un em pw = Inr (d', u)"
  shows "users d' = users d @ [u]" and "email u = trim (toLowerCase em)"
  using assms
  by (auto simp: User_create_def Let_def split: if_splits)

lemma register_keeps_emails_lower:
  assumes "\<forall>u\<in>set (users d). toLowerCase (email u) = email u"
  shows "\<forall>u\<in>set (users (fst (register rt d now b))). toLowerCase (email u) = email u"
proof (cases "find (\<lambda>u. email u = toLowerCase (rb_email b) \<or> username u = rb_username b) (users d)")
  case (Some x)
  then show ?thesis using assms by (simp add: register_existing)
next
  case None
  show ?thesis
  proof (cases "User_create rt d (rb_username b) (rb_email b) (rb_password b)")
    case (Inl e)
    then show ?thesis using None assms by (simp add: register_def)
  next
    case (Inr r)
    obtain d' u where r: "r = (d', u)" by (cases r)
    from User_create_result[OF Inr[unfolded r]]
    have us: "users d' = users d @ [u]" and em: "email u = trim (toLowerCase (rb_email b))"
      by simp_all
    have "fst (register rt d now b) = d'" using None Inr r by (simp add: register_def)
    moreover have "toLowerCase (email u) = email u"
      unfolding em by (rule trim_toLowerCase_lower)
    ultimately show ?thesis using assms us by auto
  qed
qed

text \<open>
  C7. Stored emails are lower case (the schema's setter lower-cases every email it
  stores; \<open>register_keeps_emails_lower\<close>). For every registration request whose email, compared without regard to
  case, or whose username belongs to an account in the store, \<open>register\<close> answers
  400, the message names a field that is duplicated (the email when the account found
  has that email, the username otherwise), and the store is unchanged: no account is
  created.
\<close>

theorem register_duplicate:
  "(\<forall>u\<in>set (users d). toLowerCase (email u) = email u)
   \<and> (\<exists>u\<in>set (users d). toLowerCase (email u) = toLowerCase (rb_email b)
          \<or> username u = rb_username b) \<longrightarrow>
   (\<exists>msg. register rt d now b = (d, fail_json 400 msg)
       \<and> ((msg = ''Email already exists''
              \<and> (\<exists>u\<in>set (users d). email u = toLowerCase (rb_email b)))
          \<or> (msg = ''Username already exists''
              \<and> (\<exists>u\<in>set (users d). username u = rb_username b))))"
  using register_duplicate_aux[of d b rt now] by blast

theorem register_duplicate_witness:
  "list_all (\<lambda>u. toLowerCase (email u) = email u) (users members)
   \<and> (\<exists>u\<in>set (users members).
         toLowerCase (email u) = toLowerCase (rb_email alice_again)
         \<or> username u = rb_username alice_again)
   \<and> register demo_rt members 3000 alice_again
       = (members, fail_json 400 ''Email already exists'')
   \<and> (\<exists>u\<in>set (users members).
         toLowerCase (email u) = toLowerCase (rb_email bob_again)
         \<or> username u = rb_username bob_again)
   \<and> register demo_rt members 3000 bob_again
       = (members, fail_json 400 ''Username already exists'')"
proof -
  have lo: "toLowerCase ''alice@example.com'' = ''alice@example.com''"
    "toLowerCase ''bob@example.com'' = ''bob@example.com''"
    "toLowerCase ''Alice@Example.COM'' = ''alice@example.com''"
    "toLowerCase ''robert@example.com'' = ''robert@example.com''"
    by (simp_all add: toLowerCase_def lower_char_def)
  have us: "users members = [alice_doc, bob_doc]" by (simp add: members_def)
  have h1: "\<forall>u\<in>set (users members). toLowerCase (email u) = email u"
    by (simp add: us alice_doc_def bob_doc_def lo)
  have h2: "\<exists>u\<in>set (users members).
         toLowerCase (email u) = toLowerCase (rb_email alice_again)
         \<or> username u = rb_username alice_again"
    by (simp add: us alice_doc_def bob_doc_def alice_again_def lo)
  have h3: "\<exists>u\<in>set (users members).
         toLowerCase (email u) = toLowerCase (rb_email bob_again)
         \<or> username u = rb_username bob_again"
    by (simp add: us alice_doc_def bob_doc_def bob_again_def lo)
  have ne: "\<not> (\<exists>u\<in>set (users members). email u = toLowerCase (rb_email bob_again))"
    by (simp add: us alice_doc_def bob_doc_def bob_again_def lo)
  have nu: "\<not> (\<exists>u\<in>set (users members). username u = rb_username alice_again)"
    by (simp add: us alice_doc_def bob_doc_def alice_again_def)
  from register_duplicate[where d=members and b=alice_again and rt=demo_rt and now=3000,
      rule_format, OF conjI, OF h1 h2] nu
  have c1: "register demo_rt members 3000 alice_again
       = (members, fail_json 400 ''Email already exists'')" by blast
  from register_duplicate[where d=members and b=bob_again and rt=demo_rt and now=3000,
      rule_format, OF conjI, OF h1 h3] ne
  have c2: "register demo_rt members 3000 bob_again
       = (members, fail_json 400 ''Username already exists'')" by blast
  have h1': "list_all (\<lambda>u. toLowerCase (email u) = email u) (users members)"
    using h1 by (simp only: list_all_iff)
  show ?thesis
    by (intro conjI) (fact h1' h2 c1 h3 c2)+
qed

text \<open>
  C9 (amended). For a resource that has no author field the ownership gate decides
  nothing: \<open>checkOwnership\<close> hands the request on with the resource for every
  authenticated actor, admin or not. The decision by role alone is the separate gate
  \<open>authorize\<close>: with the admin role required it answers 403 to an actor who is not
  an admin and lets an admin pass, whatever else the actor or the resource is.
\<close>

theorem checkOwnership_no_author:
  "(Model_findById m d rid = Inr (Some r) \<and> resource_author r = None \<longrightarrow>
      checkOwnership m d u rid = Next r)
   \<and> authorize [AdminRole] (Some u)
       = (if ru_role u = AdminRole then Next ()
          else Respond (fail_json 403 ''Access denied. Insufficient permissions.''))"
  using checkOwnership_no_author_aux[of m d rid r u] authorize_admin[of u] by blast

theorem checkOwnership_no_author_witness:
  "Model_findById ''Category'' blog 5 = Inr (Some (CategoryDoc tech))
   \<and> resource_author (CategoryDoc tech) = None
   \<and> checkOwnership ''Category'' blog bob 5 = Next (CategoryDoc tech)
   \<and> checkOwnership ''Category'' blog root_admin 5 = Next (CategoryDoc tech)
   \<and> authorize [AdminRole] (Some bob)
       = Respond (fail_json 403 ''Access denied. Insufficient permissions.'')
   \<and> authorize [AdminRole] (Some root_admin) = Next ()"
proof -
  have h1: "Model_findById ''Category'' blog 5 = Inr (Some (CategoryDoc tech))"
    by (simp add: Model_findById_def Category_findById_def blog_def tech_def)
  have h2: "resource_author (CategoryDoc tech) = None" by simp
  note b = checkOwnership_no_author[where m="''Category''" and d=blog and rid=5
      and r="CategoryDoc tech" and u=bob]
  note a = checkOwnership_no_author[where m="''Category''" and d=blog and rid=5
      and r="CategoryDoc tech" and u=root_admin]
  note c1 = b[THEN conjunct1, rule_format, OF conjI, OF h1 h2]
  note c2 = a[THEN conjunct1, rule_format, OF conjI, OF h1 h2]
  have c3: "authorize [AdminRole] (Some bob)
       = Respond (fail_json 403 ''Access denied. Insufficient permissions.'')"
    using b[THEN conjunct2] by (simp add: bob_def)
  have c4: "authorize [AdminRole] (Some root_admin) = Next ()"
    using a[THEN conjunct2] by (simp add: root_admin_def)
  show ?thesis
    by (intro conjI) (fact h1 h2 c1 c2 c3 c4)+
qed

text \<open>
  The claim as stated fails: an actor who is not an admin passes the ownership gate on
  a category, a resource with no author field.
\<close>

theorem checkOwnership_no_author_counterexample:
  "ru_role bob \<noteq> AdminRole
   \<and> resource_author (CategoryDoc tech) = None
   \<and> checkOwnership ''Category'' blog bob 5 = Next (CategoryDoc tech)"
  by (simp add: checkOwnership_def Model_findById_def Category_findById_def blog_def tech_def
      bob_def)

text \<open>
  C10. Login looks the account up by the identifier it was given in the field named
  \<^verbatim>\<open>email\<close>, matched against either the stored email or the username; the query
  lower-cases and trims the identifier for the email and trims it for the username.
  The lookup finds nothing exactly when no account matches either way, and what it
  finds matches one way or the other. So an active account, the only one the
  identifier matches, logs in by submitting its username (surrounding white space
  does not count) with the correct password: the answer is 200 with a token for that
  account, and its last login is stamped.
\<close>

theorem login_by_username:
  "(findByEmailOrUsername d i = None \<longleftrightarrow>
      \<not> (\<exists>u\<in>set (users d). email u = trim (toLowerCase i) \<or> username u = trim i))
   \<and> (findByEmailOrUsername d i = Some v \<longrightarrow>
      v \<in> set (users d) \<and> (email v = trim (toLowerCase i) \<or> username v = trim i))
   \<and> (u \<in> set (users d) \<and> username u = trim ident
      \<and> (\<forall>v\<in>set (users d).
            email v = trim (toLowerCase ident) \<or> username v = trim ident \<longrightarrow> v = u)
      \<and> bcrypt_compare rt pw (password u) = Inr True \<and> isActive u \<and> accepts_writes d \<longrightarrow>
      (\<exists>d'. login rt d now \<lparr>lb_email = ident, lb_password = pw\<rparr>
               = (d', ok_json 200 (Some ''Login successful'')
                        (AuthData (user_id u) (username u) (email u) (role u)
                           (generateToken rt now (user_id u))))
           \<and> map_option lastLogin (User_findById d' (user_id u)) = Some (Some now)))"
proof (intro conjI impI)
  show "findByEmailOrUsername d i = None \<longleftrightarrow>
      \<not> (\<exists>u\<in>set (users d). email u = trim (toLowerCase i) \<or> username u = trim i)"
    by (rule findByEmailOrUsername_None)
next
  assume "findByEmailOrUsername d i = Some v"
  then show "v \<in> set (users d)" and "email v = trim (toLowerCase i) \<or> username v = trim i"
    using findByEmailOrUsername_Some by blast+
next
  assume "u \<in> set (users d) \<and> username u = trim ident
      \<and> (\<forall>v\<in>set (users d).
            email v = trim (toLowerCase ident) \<or> username v = trim ident \<longrightarrow> v = u)
      \<and> bcrypt_compare rt pw (password u) = Inr True \<and> isActive u \<and> accepts_writes d"
  then show "\<exists>d'. login rt d now \<lparr>lb_email = ident, lb_password = pw\<rparr>
               = (d', ok_json 200 (Some ''Login successful'')
                        (AuthData (user_id u) (username u) (email u) (role u)
                           (generateToken rt now (user_id u))))
           \<and> map_option lastLogin (User_findById d' (user_id u)) = Some (Some now)"
    using login_username_ok[of u d ident rt pw now] by blast
qed

theorem login_by_username_witness:
  "findByEmailOrUsername members ''alice'' = Some alice_doc
   \<and> findByEmailOrUsername members '' alice '' = Some alice_doc
   \<and> findByEmailOrUsername members ''nobody'' = None
   \<and> alice_doc \<in> set (users members)
   \<and> username alice_doc = trim ''alice'' \<and> username alice_doc = trim '' alice ''
   \<and> list_all (\<lambda>v. email v = trim (toLowerCase ''alice'') \<or> username v = trim ''alice''
                      \<longrightarrow> v = alice_doc) (users members)
   \<and> list_all (\<lambda>v. email v = trim (toLowerCase '' alice '') \<or> username v = trim '' alice ''
                      \<longrightarrow> v = alice_doc) (users members)
   \<and> bcrypt_compare demo_rt ''Passw0rd'' (password alice_doc) = Inr True
   \<and> isActive alice_doc \<and> accepts_writes members
   \<and> (\<exists>d'. login demo_rt members 3000 \<lparr>lb_email = ''alice'', lb_password = ''Passw0rd''\<rparr>
               = (d', ok_json 200 (Some ''Login successful'')
                        (AuthData 1 ''alice'' ''alice@example.com'' UserRole ''tok-other''))
           \<and> map_option lastLogin (User_findById d' 1) = Some (Some 3000))
   \<and> (\<exists>d'. login demo_rt members 3000 \<lparr>lb_email = '' alice '', lb_password = ''Passw0rd''\<rparr>
               = (d', ok_json 200 (Some ''Login successful'')
                        (AuthData 1 ''alice'' ''alice@example.com'' UserRole ''tok-other''))
           \<and> map_option lastLogin (User_findById d' 1) = Some (Some 3000))"
proof -
  have us: "users members = [alice_doc, bob_doc]" by (simp add: members_def)
  have lo: "toLowerCase ''alice'' = ''alice''" "toLowerCase '' alice '' = '' alice ''"
    "toLowerCase ''nobody'' = ''nobody''"
    by (simp_all add: toLowerCase_def lower_char_def)
  have tr: "trim ''alice'' = ''alice''" "trim '' alice '' = ''alice''"
    "trim ''nobody'' = ''nobody''"
    by (simp_all add: trim_def is_space_def)
  have un: "username alice_doc = ''alice''" by (simp add: alice_doc_def)
  have fl: "user_id alice_doc = 1" "email alice_doc = ''alice@example.com''"
    "role alice_doc = UserRole" by (simp_all add: alice_doc_def)
  have h1: "alice_doc \<in> set (users members)" by (simp add: us)
  have h2: "username alice_doc = trim ''alice''" by (simp only: un tr)
  have h2p: "username alice_doc = trim '' alice ''" by (simp only: un tr)
  have h3: "\<forall>v\<in>set (users members).
         email v = trim (toLowerCase ''alice'') \<or> username v = trim ''alice'' \<longrightarrow> v = alice_doc"
    unfolding lo tr by (simp add: us alice_doc_def bob_doc_def)
  have h3p: "\<forall>v\<in>set (users members).
         email v = trim (toLowerCase '' alice '') \<or> username v = trim '' alice ''
           \<longrightarrow> v = alice_doc"
    unfolding lo tr by (simp add: us alice_doc_def bob_doc_def)
  have h4: "bcrypt_compare demo_rt ''Passw0rd'' (password alice_doc) = Inr True"
    by (simp add: demo_rt_def alice_doc_def)
  have h5: "isActive alice_doc" by (simp add: alice_doc_def)
  have h6: "accepts_writes members" by (simp add: members_def blog_def)
  have tk: "generateToken demo_rt 3000 1 = ''tok-other''"
    by (simp add: generateToken_def jwt_sign_def JWT_SECRET_def JWT_EXPIRE_def demo_rt_def
        alice_jws_def)
  have nb: "\<not> (\<exists>u\<in>set (users members).
               email u = trim (toLowerCase ''nobody'') \<or> username u = trim ''nobody'')"
    unfolding lo tr by (simp add: us alice_doc_def bob_doc_def)
  note th = login_by_username[where d=members and i="''nobody''" and v=alice_doc
      and u=alice_doc and ident="''alice''" and rt=demo_rt and pw="''Passw0rd''" and now=3000]
  note thp = login_by_username[where d=members and i="''nobody''" and v=alice_doc
      and u=alice_doc and ident="'' alice ''" and rt=demo_rt and pw="''Passw0rd''" and now=3000]
  have n0: "findByEmailOrUsername members ''nobody'' = None"
    by (rule th[THEN conjunct1, THEN iffD2, OF nb])
  note c = th[THEN conjunct2, THEN conjunct2, rule_format, OF conjI, OF h1 conjI, OF h2 conjI,
      OF h3 conjI, OF h4 conjI, OF h5 h6, unfolded un fl, unfolded tk]
  note cp = thp[THEN conjunct2, THEN conjunct2, rule_format, OF conjI, OF h1 conjI, OF h2p conjI,
      OF h3p conjI, OF h4 conjI, OF h5 h6, unfolded un fl, unfolded tk]
  have f0: "findByEmailOrUsername members ''alice'' = Some alice_doc"
    unfolding findByEmailOrUsername_find lo tr by (simp add: us alice_doc_def)
  have f0p: "findByEmailOrUsername members '' alice '' = Some alice_doc"
    unfolding findByEmailOrUsername_find lo tr by (simp add: us alice_doc_def)
  have h3': "list_all (\<lambda>v. email v = trim (toLowerCase ''alice'') \<or> username v = trim ''alice''
                      \<longrightarrow> v = alice_doc) (users members)"
    using h3 by (simp only: list_all_iff)
  have h3p': "list_all (\<lambda>v. email v = trim (toLowerCase '' alice '') \<or> username v = trim '' alice ''
                      \<longrightarrow> v = alice_doc) (users members)"
    using h3p by (simp only: list_all_iff)
  show ?thesis
    by (intro conjI) (fact f0 f0p n0 h1 h2 h2p h3' h3p' h4 h5 h6 c cp)+
qed

end
